theory Spec2Isabelle
  imports Main "HOL-Library.AList"
begin

section \<open>The custom shader pipeline stage\<close>

text \<open>
  A shallow embedding of \<^verbatim>\<open>Source/Scene/ModelExperimental/CustomShaderStage.js\<close>.

  Modelling conventions.
  \<^item> A JavaScript object used as a dictionary is an association list in the order in which
    its own properties were created; \<^verbatim>\<open>obj[k] = v\<close> is \<open>AList.update\<close> (an existing key
    keeps its place, a new key goes last) and \<^verbatim>\<open>for (k in obj)\<close> walks the list. An
    object used as a set (\<^verbatim>\<open>attributeSet\<close>, \<^verbatim>\<open>positionSet\<close>) is the list of its keys in
    enumeration order, and \<^verbatim>\<open>hasOwnProperty\<close> is membership. This is what JavaScript does
    for the own properties of an object whose names are ordinary identifiers: own
    properties named by a canonical array index (enumerated first, in numeric order) or
    named \<^verbatim>\<open>__proto__\<close> or \<^verbatim>\<open>hasOwnProperty\<close> are outside the model.
  \<^item> A read \<^verbatim>\<open>obj[k]\<close> that no \<^verbatim>\<open>hasOwnProperty\<close> test guards looks \<open>k\<close> up among the own
    properties of the object and then along its prototype chain. The two tables of
    default inference are read in this way; they are object literals, so that their
    prototype is \<^verbatim>\<open>Object.prototype\<close>, and the members of \<^verbatim>\<open>Object.prototype\<close> (such as
    \<^verbatim>\<open>constructor\<close>) are part of the model there. The test
    \<^verbatim>\<open>"positionWC" in positionSet\<close> is membership, \<^verbatim>\<open>positionWC\<close> naming no inherited member.
  \<^item> \<^verbatim>\<open>undefined\<close> is \<open>None\<close>, and \<^verbatim>\<open>defined(x)\<close> is \<open>x \<noteq> None\<close>.
  \<^item> The shader builder belongs to the renderer; the model keeps the sequence of calls
    made on it, oldest first. The one-time warning sink is likewise the sequence of calls
    \<^verbatim>\<open>_oneTimeWarning(identifier, message)\<close>.
  \<^item> Strings are lists of 8-bit characters; \<^verbatim>\<open>toLowerCase\<close> is modelled on ASCII letters.
  \<^item> Functions and constants imported from other modules
    (\<^verbatim>\<open>VertexAttributeSemantic.getVariableName\<close>, \<^verbatim>\<open>AttributeType.getGlslType\<close>,
    \<^verbatim>\<open>CustomShaderMode.getDefineName\<close>, the two GLSL epilogues) are parameters, collected
    in one record, together with the text that the JavaScript engine gives for a member
    of \<^verbatim>\<open>Object.prototype\<close> when the member is concatenated to a string.
\<close>

subsection \<open>Data\<close>

text \<open>\<^verbatim>\<open>ModelComponents.Attribute\<close>, the fields this stage reads.\<close>

record ('s, 't) attribute =
  name :: string
  semantic :: "'s option"
  setIndex :: "nat option"
  type :: 't

record ('s, 't) primitive =
  attributes :: "('s, 't) attribute list"

text \<open>An entry of \<^verbatim>\<open>customShader.uniforms\<close>; only \<^verbatim>\<open>uniform.type\<close> is read here.\<close>

record uniform =
  uniformType :: string

record usedVariablesVertex =
  attributeSet :: "string list"

record usedVariablesFragment = usedVariablesVertex +
  positionSet :: "string list"

record ('lm, 'mode, 'u) customShader =
  vertexShaderText :: "string option"
  fragmentShaderText :: "string option"
  usedVariablesVertex :: usedVariablesVertex
  usedVariablesFragment :: usedVariablesFragment
  uniforms :: "(string \<times> uniform) list"
  varyings :: "(string \<times> string) list"
  lightingModel :: "'lm option"
  mode :: 'mode
  isTranslucent :: bool
  uniformMap :: "string \<rightharpoonup> 'u"

text \<open>The functions and constants of other modules that this stage calls.\<close>

record ('s, 't, 'mode) externals =
  getVariableName :: "'s \<Rightarrow> nat option \<Rightarrow> string"
  getGlslType :: "'t \<Rightarrow> string"
  getDefineName :: "'mode \<Rightarrow> string"
  CustomShaderStageVS :: string
  CustomShaderStageFS :: string
  inheritedText :: "string \<Rightarrow> string"

datatype ShaderDestination = VERTEX | FRAGMENT | BOTH

text \<open>
  Modelled from the spec: the enumerations \<^verbatim>\<open>Pass\<close> and \<^verbatim>\<open>AlphaMode\<close> are declared in
  modules that are not part of the sources. The spec names the translucent pass and the
  blend and opaque alpha modes; the comment in \<^verbatim>\<open>process\<close> names the two default passes.
\<close>

datatype Pass = OPAQUE_PASS | CESIUM_3D_TILE | TRANSLUCENT

datatype AlphaMode = OPAQUE | BLEND

text \<open>
  A value that reaches the type position of a field or the right-hand side of an
  initialization line: a string, or the member of \<^verbatim>\<open>Object.prototype\<close> of the given name (a
  built-in function; for \<^verbatim>\<open>__proto__\<close> the prototype object itself), which a read of a
  default table returns when the table has no own property of that name.
\<close>

datatype jsValue = Str string | Inherited string

text \<open>A call on the shader builder.\<close>

datatype call =
  AddStruct string string ShaderDestination
| AddStructField string jsValue string
| AddFunction string string ShaderDestination
| AddFunctionLine string string
| AddVertexLines "string option list"
| AddFragmentLines "string option list"
| AddDefine string "string option" ShaderDestination
| AddUniform string string
| AddVarying string string

text \<open>
  \<^verbatim>\<open>PrimitiveRenderResources\<close>, the fields this stage reads or writes.
  \<open>model_customShader\<close> is \<^verbatim>\<open>renderResources.model.customShader\<close>;
  \<open>lightingOptions_lightingModel\<close>, \<open>alphaOptions_pass\<close> and \<open>alphaOptions_alphaMode\<close>
  are the fields of the nested objects \<^verbatim>\<open>lightingOptions\<close> and \<^verbatim>\<open>alphaOptions\<close>;
  \<open>renderResources_uniformMap\<close> is \<^verbatim>\<open>renderResources.uniformMap\<close>.
\<close>

record ('lm, 'mode, 'u) renderResources =
  shaderBuilder :: "call list"
  model_customShader :: "('lm, 'mode, 'u) customShader"
  lightingOptions_lightingModel :: "'lm option"
  alphaOptions_pass :: "Pass option"
  alphaOptions_alphaMode :: "AlphaMode option"
  renderResources_uniformMap :: "string \<rightharpoonup> 'u"

text \<open>An \<^verbatim>\<open>[glslType, variableName]\<close> pair.\<close>

type_synonym field = "jsValue \<times> string"

text \<open>
  The objects \<^verbatim>\<open>vertexLines\<close> and \<^verbatim>\<open>fragmentLines\<close>. They start as \<^verbatim>\<open>{enabled: false}\<close>:
  the other properties are absent until generation succeeds.
\<close>

record stageLines =
  enabled :: bool
  attributeFields :: "field list option"
  fragmentInputFields :: "field list option"
  initializationLines :: "string list option"

record generatedCode =
  vertexLines :: stageLines
  fragmentLines :: stageLines
  vertexLinesEnabled :: bool
  fragmentLinesEnabled :: bool
  customShaderEnabled :: bool
  shouldComputePositionWC :: bool

text \<open>A call \<^verbatim>\<open>CustomShaderStage._oneTimeWarning(identifier, message)\<close>.\<close>

type_synonym warning = "string \<times> string"

datatype error = TypeError

subsection \<open>The attribute catalog\<close>

definition toLowerCase :: "string \<Rightarrow> string" where
  "toLowerCase s =
     map (\<lambda>c. case map_of (zip ''ABCDEFGHIJKLMNOPQRSTUVWXYZ'' ''abcdefghijklmnopqrstuvwxyz'') c of
                 Some l \<Rightarrow> l | None \<Rightarrow> c) s"

text \<open>The body of the loop of \<^verbatim>\<open>getAttributeNames\<close>.\<close>

definition variableNameOf :: "('s, 't, 'mode) externals \<Rightarrow> ('s, 't) attribute \<Rightarrow> string" where
  "variableNameOf ext a =
     (case semantic a of
        Some sem \<Rightarrow> getVariableName ext sem (setIndex a)
      | None \<Rightarrow> toLowerCase (drop 1 (name a)))"

fun getAttributeNames_loop ::
  "('s, 't, 'mode) externals \<Rightarrow> ('s, 't) attribute list \<Rightarrow>
   (string \<times> ('s, 't) attribute) list \<Rightarrow> (string \<times> ('s, 't) attribute) list" where
  "getAttributeNames_loop ext [] names = names"
| "getAttributeNames_loop ext (a # as) names =
     getAttributeNames_loop ext as (AList.update (variableNameOf ext a) a names)"

definition getAttributeNames ::
  "('s, 't, 'mode) externals \<Rightarrow> ('s, 't) attribute list \<Rightarrow> (string \<times> ('s, 't) attribute) list" where
  "getAttributeNames ext as = getAttributeNames_loop ext as []"

definition generateAttributeField ::
  "('s, 't, 'mode) externals \<Rightarrow> string \<Rightarrow> ('s, 't) attribute \<Rightarrow> field" where
  "generateAttributeField ext nm a = (Str (getGlslType ext (type a)), nm)"

subsection \<open>Default inference\<close>

definition attributeTypeLUT :: "(string \<times> string) list" where
  "attributeTypeLUT =
     [(''positionMC'', ''vec3''),
      (''normal'', ''vec3''),
      (''tangent'', ''vec4''),
      (''texCoord'', ''vec2''),
      (''joints'', ''ivec4''),
      (''weights'', ''vec4'')]"

definition attributeDefaultValueLUT :: "(string \<times> string) list" where
  "attributeDefaultValueLUT =
     [(''positionMC'', ''vec3(0.0)''),
      (''normal'', ''vec3(0.0, 0.0, 1.0)''),
      (''tangent'', ''vec4(1.0, 0.0, 0.0, 1.0)''),
      (''texCoord'', ''vec2(0.0)''),
      (''joints'', ''ivec4(0)''),
      (''weights'', ''vec4(0.0)'')]"

definition isDigit :: "char \<Rightarrow> bool" where
  "isDigit c = (c \<in> set ''0123456789'')"

text \<open>
  \<^verbatim>\<open>attributeName.replace(/_[0-9]+$/, "")\<close>: the pattern matches an underscore followed by
  one or more digits that reach the end of the string. Read from the end: the digits,
  then the underscore.
\<close>

definition trimSetIndex :: "string \<Rightarrow> string" where
  "trimSetIndex s =
     (let r = rev s; ds = takeWhile isDigit r in
      case dropWhile isDigit r of
        [] \<Rightarrow> s
      | c # rest \<Rightarrow> if ds \<noteq> [] \<and> c = CHR ''_'' then rev rest else s)"

text \<open>
  The names of the properties of \<^verbatim>\<open>Object.prototype\<close>, as the language standard lists them
  (with its annex for web browsers). None of them is \<^verbatim>\<open>undefined\<close> or \<^verbatim>\<open>null\<close>.
\<close>

definition objectPrototype :: "string list" where
  "objectPrototype =
     [''constructor'', ''hasOwnProperty'', ''isPrototypeOf'', ''propertyIsEnumerable'',
      ''toLocaleString'', ''toString'', ''valueOf'', ''__defineGetter__'',
      ''__defineSetter__'', ''__lookupGetter__'', ''__lookupSetter__'', ''__proto__'']"

text \<open>
  \<^verbatim>\<open>table[key]\<close> on a table written as an object literal: the own property of that name,
  else the member of that name inherited from \<^verbatim>\<open>Object.prototype\<close>, else \<^verbatim>\<open>undefined\<close>.
\<close>

definition getProperty :: "(string \<times> string) list \<Rightarrow> string \<Rightarrow> jsValue option" where
  "getProperty table key =
     (case map_of table key of
        Some s \<Rightarrow> Some (Str s)
      | None \<Rightarrow> if key \<in> set objectPrototype then Some (Inherited key) else None)"

record attributeDefaults =
  attributeField :: field
  "value" :: "jsValue option"

definition inferAttributeDefaults :: "string \<Rightarrow> attributeDefaults option" where
  "inferAttributeDefaults attributeName =
     (let trimmed = trimSetIndex attributeName;
          glslType = getProperty attributeTypeLUT trimmed;
          v = getProperty attributeDefaultValueLUT trimmed
      in case glslType of
           None \<Rightarrow> None
         | Some ty \<Rightarrow> Some \<lparr>attributeField = (ty, attributeName), value = v\<rparr>)"

subsection \<open>Partitioning\<close>

record 'a categories =
  addToShader :: "(string \<times> 'a) list"
  missingAttributes :: "string list"

text \<open>The first loop of \<^verbatim>\<open>partitionAttributes\<close>, over the primitive's attributes.\<close>

fun addToShader_loop ::
  "(string \<times> 'a) list \<Rightarrow> string list \<Rightarrow> (string \<times> 'a) list \<Rightarrow> (string \<times> 'a) list" where
  "addToShader_loop [] shaderAttributeSet acc = acc"
| "addToShader_loop ((attributeName, attribute) # rest) shaderAttributeSet acc =
     addToShader_loop rest shaderAttributeSet
       (if attributeName \<in> set shaderAttributeSet
        then AList.update attributeName attribute acc else acc)"

text \<open>The second loop, over the shader's attribute set.\<close>

fun missingAttributes_loop ::
  "(string \<times> 'a) list \<Rightarrow> string list \<Rightarrow> string list \<Rightarrow> string list" where
  "missingAttributes_loop primitiveAttributes [] acc = acc"
| "missingAttributes_loop primitiveAttributes (attributeName # rest) acc =
     missingAttributes_loop primitiveAttributes rest
       (if attributeName \<notin> fst ` set primitiveAttributes then acc @ [attributeName] else acc)"

definition partitionAttributes :: "(string \<times> 'a) list \<Rightarrow> string list \<Rightarrow> 'a categories" where
  "partitionAttributes primitiveAttributes shaderAttributeSet =
     \<lparr>addToShader = addToShader_loop primitiveAttributes shaderAttributeSet [],
      missingAttributes = missingAttributes_loop primitiveAttributes shaderAttributeSet []\<rparr>"

subsection \<open>Generating the lines of a stage\<close>

text \<open>String concatenation with a value that may be \<^verbatim>\<open>undefined\<close>.\<close>

definition toStr :: "('s, 't, 'mode) externals \<Rightarrow> jsValue option \<Rightarrow> string" where
  "toStr ext v =
     (case v of
        None \<Rightarrow> ''undefined''
      | Some (Str s) \<Rightarrow> s
      | Some (Inherited key) \<Rightarrow> inheritedText ext key)"

text \<open>
  \<^verbatim>\<open>generateVertexShaderLines\<close> and \<^verbatim>\<open>generateFragmentShaderLines\<close> run the same two
  loops; only the name of the input struct (\<^verbatim>\<open>vsInput\<close>, \<^verbatim>\<open>fsInput\<close>) differs, and it is
  the parameter \<open>inp\<close> here. The first loop copies the attributes the primitive has.
\<close>

fun present_loop ::
  "('s, 't, 'mode) externals \<Rightarrow> string \<Rightarrow> (string \<times> ('s, 't) attribute) list \<Rightarrow>
   field list \<Rightarrow> string list \<Rightarrow> field list \<times> string list" where
  "present_loop ext inp [] attrFields initLines = (attrFields, initLines)"
| "present_loop ext inp ((variableName, attribute) # rest) attrFields initLines =
     present_loop ext inp rest
       (attrFields @ [generateAttributeField ext variableName attribute])
       (initLines @ [inp @ ''.attributes.'' @ variableName @ '' = attributes.'' @ variableName @ '';''])"

text \<open>
  The second loop gives the missing attributes their defaults. \<open>Inl variableName\<close> is the
  early return at the first attribute without a default.
\<close>

fun needsDefault_loop ::
  "('s, 't, 'mode) externals \<Rightarrow> string \<Rightarrow> string list \<Rightarrow> field list \<Rightarrow> string list \<Rightarrow>
   string + field list \<times> string list" where
  "needsDefault_loop ext inp [] attrFields initLines = Inr (attrFields, initLines)"
| "needsDefault_loop ext inp (variableName # rest) attrFields initLines =
     (case inferAttributeDefaults variableName of
        None \<Rightarrow> Inl variableName
      | Some attributeDefaults \<Rightarrow>
          needsDefault_loop ext inp rest
            (attrFields @ [attributeField attributeDefaults])
            (initLines @ [inp @ ''.attributes.'' @ variableName @ '' = '' @
                      toStr ext (value attributeDefaults) @ '';'']))"

definition generateVertexShaderLines ::
  "('s, 't, 'mode) externals \<Rightarrow> ('lm, 'mode, 'u) customShader \<Rightarrow>
   (string \<times> ('s, 't) attribute) list \<Rightarrow> stageLines \<Rightarrow> warning list \<Rightarrow>
   stageLines \<times> warning list" where
  "generateVertexShaderLines ext customShader namedAttributes vLines log =
     (let categories = partitionAttributes namedAttributes
                         (attributeSet (usedVariablesVertex customShader));
          (attrFields, initLines) = present_loop ext ''vsInput'' (addToShader categories) [] []
      in case needsDefault_loop ext ''vsInput'' (missingAttributes categories) attrFields initLines of
           Inl variableName \<Rightarrow>
             (vLines,
              log @ [(''CustomShaderStage.incompatiblePrimitiveVS'',
                      ''Primitive is missing attribute '' @ variableName @
                      '', disabling custom vertex shader'')])
         | Inr (attrFields', initLines') \<Rightarrow>
             (vLines\<lparr>enabled := True,
                          attributeFields := Some attrFields',
                          initializationLines := Some initLines'\<rparr>,
              log))"

text \<open>\<^verbatim>\<open>generatePositionBuiltins\<close> returns its two lists as a pair.\<close>

definition generatePositionBuiltins ::
  "('lm, 'mode, 'u) customShader \<Rightarrow> field list \<times> string list" where
  "generatePositionBuiltins customShader =
     (let usedVariables = positionSet (usedVariablesFragment customShader);
          (f1, l1) = (if ''positionMC'' \<in> set usedVariables
                      then ([(Str ''vec3'', ''positionMC'')],
                            [''fsInput.positionMC = attributes.positionMC;''])
                      else ([], []));
          (f2, l2) = (if ''positionWC'' \<in> set usedVariables
                      then (f1 @ [(Str ''vec3'', ''positionWC'')],
                            l1 @ [''fsInput.positionWC = attributes.positionWC;''])
                      else (f1, l1));
          (f3, l3) = (if ''positionEC'' \<in> set usedVariables
                      then (f2 @ [(Str ''vec3'', ''positionEC'')],
                            l2 @ [''fsInput.positionEC = attributes.positionEC;''])
                      else (f2, l2))
      in (f3, l3))"

definition generateFragmentShaderLines ::
  "('s, 't, 'mode) externals \<Rightarrow> ('lm, 'mode, 'u) customShader \<Rightarrow>
   (string \<times> ('s, 't) attribute) list \<Rightarrow> stageLines \<Rightarrow> warning list \<Rightarrow>
   stageLines \<times> warning list" where
  "generateFragmentShaderLines ext customShader namedAttributes fLines log =
     (let categories = partitionAttributes namedAttributes
                         (attributeSet (usedVariablesFragment customShader));
          (attrFields, initLines) = present_loop ext ''fsInput'' (addToShader categories) [] []
      in case needsDefault_loop ext ''fsInput'' (missingAttributes categories) attrFields initLines of
           Inl variableName \<Rightarrow>
             (fLines,
              log @ [(''CustomShaderStage.incompatiblePrimitiveFS'',
                      ''Primitive is missing attribute '' @ variableName @
                      '', disabling custom fragment shader.'')])
         | Inr (attrFields', initLines') \<Rightarrow>
             (let (builtinFields, builtinLines) = generatePositionBuiltins customShader
              in (fLines\<lparr>enabled := True,
                                attributeFields := Some attrFields',
                                fragmentInputFields := Some builtinFields,
                                initializationLines := Some (builtinLines @ initLines')\<rparr>,
                  log)))"

definition generateShaderLines ::
  "('s, 't, 'mode) externals \<Rightarrow> ('lm, 'mode, 'u) customShader \<Rightarrow> ('s, 't) primitive \<Rightarrow>
   warning list \<Rightarrow> generatedCode \<times> warning list" where
  "generateShaderLines ext customShader primitive log =
     (let vertexLines0 = \<lparr>enabled = False, attributeFields = None,
                          fragmentInputFields = None, initializationLines = None\<rparr>;
          fragmentLines0 = \<lparr>enabled = False, attributeFields = None,
                            fragmentInputFields = None, initializationLines = None\<rparr>;
          namedAttributes = getAttributeNames ext (attributes primitive);
          (vertexLines1, log1) =
            (if vertexShaderText customShader \<noteq> None
             then generateVertexShaderLines ext customShader namedAttributes vertexLines0 log
             else (vertexLines0, log));
          (fragmentLines1, log2) =
            (if fragmentShaderText customShader \<noteq> None
             then generateFragmentShaderLines ext customShader namedAttributes fragmentLines0 log1
             else (fragmentLines0, log1));
          shouldCompute =
            (''positionWC'' \<in> set (positionSet (usedVariablesFragment customShader)) \<and>
             enabled fragmentLines1)
      in (\<lparr>vertexLines = vertexLines1,
           fragmentLines = fragmentLines1,
           vertexLinesEnabled = enabled vertexLines1,
           fragmentLinesEnabled = enabled fragmentLines1,
           customShaderEnabled = (enabled vertexLines1 \<or> enabled fragmentLines1),
           shouldComputePositionWC = shouldCompute\<rparr>,
          log2))"

subsection \<open>Emitting the lines\<close>

text \<open>
  Reading \<^verbatim>\<open>.length\<close> of a list that is \<^verbatim>\<open>undefined\<close> throws; the exception is
  \<open>Inl TypeError\<close>.
\<close>

definition addVertexLinesToShader :: "call list \<Rightarrow> stageLines \<Rightarrow> error + call list" where
  "addVertexLinesToShader builder vLines =
     (let sb1 = builder @ [AddStruct ''AttributesVS'' ''Attributes'' VERTEX] in
      case attributeFields vLines of
        None \<Rightarrow> Inl TypeError
      | Some attrFields \<Rightarrow>
         (let sb2 = sb1 @ map (\<lambda>(glslType, variableName).
                                 AddStructField ''AttributesVS'' glslType variableName) attrFields;
              sb3 = sb2 @ [AddStruct ''VertexInput'' ''VertexInput'' VERTEX,
                           AddStructField ''VertexInput'' (Str ''Attributes'') ''attributes'',
                           AddFunction ''initializeInputStructVS''
                             ''void initializeInputStruct(out VertexInput vsInput, ProcessedAttributes attributes)''
                             VERTEX]
          in case initializationLines vLines of
               None \<Rightarrow> Inl TypeError
             | Some initLines \<Rightarrow>
                 Inr (sb3 @ map (AddFunctionLine ''initializeInputStructVS'') initLines)))"

definition addFragmentLinesToShader :: "call list \<Rightarrow> stageLines \<Rightarrow> error + call list" where
  "addFragmentLinesToShader builder fLines =
     (let sb1 = builder @ [AddStruct ''AttributesFS'' ''Attributes'' FRAGMENT] in
      case attributeFields fLines of
        None \<Rightarrow> Inl TypeError
      | Some attrFields \<Rightarrow>
         (let sb2 = sb1 @ map (\<lambda>(glslType, variableName).
                                 AddStructField ''AttributesFS'' glslType variableName) attrFields;
              sb3 = sb2 @ [AddStruct ''FragmentInput'' ''FragmentInput'' FRAGMENT,
                           AddStructField ''FragmentInput'' (Str ''Attributes'') ''attributes'']
          in case fragmentInputFields fLines of
               None \<Rightarrow> Inl TypeError
             | Some inputFields \<Rightarrow>
                (let sb4 = sb3 @ map (\<lambda>(glslType, variableName).
                                        AddStructField ''FragmentInput'' glslType variableName)
                                     inputFields;
                     sb5 = sb4 @ [AddFunction ''initializeInputStructFS''
                                    ''void initializeInputStruct(out FragmentInput fsInput, ProcessedAttributes attributes)''
                                    FRAGMENT]
                 in case initializationLines fLines of
                      None \<Rightarrow> Inl TypeError
                    | Some initLines \<Rightarrow>
                        Inr (sb5 @ map (AddFunctionLine ''initializeInputStructFS'') initLines))))"

definition addLinesToShader ::
  "('s, 't, 'mode) externals \<Rightarrow> call list \<Rightarrow> ('lm, 'mode, 'u) customShader \<Rightarrow>
   generatedCode \<Rightarrow> error + call list" where
  "addLinesToShader ext builder customShader generatedCode =
     (case (if enabled (vertexLines generatedCode)
            then (case addVertexLinesToShader builder (vertexLines generatedCode) of
                    Inl e \<Rightarrow> Inl e
                  | Inr sb \<Rightarrow>
                      Inr (sb @ [AddVertexLines [Some ''#line 0'',
                                                 vertexShaderText customShader,
                                                 Some (CustomShaderStageVS ext)]]))
            else Inr builder) of
        Inl e \<Rightarrow> Inl e
      | Inr sb1 \<Rightarrow>
          (if enabled (fragmentLines generatedCode)
           then (case addFragmentLinesToShader sb1 (fragmentLines generatedCode) of
                   Inl e \<Rightarrow> Inl e
                 | Inr sb \<Rightarrow>
                     Inr (sb @ [AddFragmentLines [Some ''#line 0'',
                                                  fragmentShaderText customShader,
                                                  Some (CustomShaderStageFS ext)]]))
           else Inr sb1))"

subsection \<open>The stage\<close>

text \<open>
  Modelled from the spec: \<^verbatim>\<open>combine\<close> is imported from \<^verbatim>\<open>Core/combine.js\<close>, which is not
  part of the sources. The spec says of the call in \<^verbatim>\<open>process\<close> that it merges the
  user-supplied uniform value map (the second argument) into the draw call's uniform
  bindings (the first), with user values taking precedence on key collision.
\<close>

definition combine :: "('k \<rightharpoonup> 'v) \<Rightarrow> ('k \<rightharpoonup> 'v) \<Rightarrow> ('k \<rightharpoonup> 'v)" where
  "combine object1 object2 = object1 ++ object2"

definition process ::
  "('s, 't, 'mode) externals \<Rightarrow> ('lm, 'mode, 'u) renderResources \<Rightarrow> ('s, 't) primitive \<Rightarrow>
   'frame \<Rightarrow> warning list \<Rightarrow> error + ('lm, 'mode, 'u) renderResources \<times> warning list" where
  "process ext renderResources primitive frameState log =
     (let customShader = model_customShader renderResources;
          (generatedCode, log') = generateShaderLines ext customShader primitive log
      in if \<not> customShaderEnabled generatedCode then Inr (renderResources, log')
         else
           case addLinesToShader ext (shaderBuilder renderResources) customShader generatedCode of
             Inl e \<Rightarrow> Inl e
           | Inr sb1 \<Rightarrow>
              (let sb2 = (if shouldComputePositionWC generatedCode
                          then sb1 @ [AddDefine ''COMPUTE_POSITION_WC'' None VERTEX]
                          else sb1);
                   sb3 = (if vertexShaderText customShader \<noteq> None
                          then sb2 @ [AddDefine ''HAS_CUSTOM_VERTEX_SHADER'' None VERTEX]
                          else sb2);
                   sb4 = (if fragmentShaderText customShader \<noteq> None
                          then sb3 @ [AddDefine ''HAS_CUSTOM_FRAGMENT_SHADER'' None FRAGMENT,
                                      AddDefine (getDefineName ext (mode customShader)) None FRAGMENT]
                          else sb3);
                   sb5 = sb4 @ map (\<lambda>(uniformName, uniform).
                                      AddUniform (uniformType uniform) uniformName)
                                   (uniforms customShader);
                   sb6 = sb5 @ map (\<lambda>(varyingName, varyingType).
                                      AddVarying varyingType varyingName)
                                   (varyings customShader);
                   lm = (if lightingModel customShader \<noteq> None
                         then lightingModel customShader
                         else lightingOptions_lightingModel renderResources);
                   (pass, alphaMode) = (if isTranslucent customShader
                                        then (Some TRANSLUCENT, Some BLEND)
                                        else (None, Some OPAQUE))
               in Inr (renderResources
                         \<lparr>shaderBuilder := sb6,
                          lightingOptions_lightingModel := lm,
                          alphaOptions_pass := pass,
                          alphaOptions_alphaMode := alphaMode,
                          renderResources_uniformMap :=
                            combine (renderResources_uniformMap renderResources)
                                    (uniformMap customShader)\<rparr>,
                       log')))"

subsection \<open>Notions used in the statements\<close>

text \<open>
  The first attribute, in the enumeration order of the shader's attribute set, that the
  catalog lacks and for which no default can be inferred.
\<close>

definition firstUnresolved :: "(string \<times> 'a) list \<Rightarrow> string list \<Rightarrow> string option" where
  "firstUnresolved named used =
     List.find (\<lambda>n. n \<notin> fst ` set named \<and> inferAttributeDefaults n = None) used"

text \<open>
  Calls that declare the generated code of one stage: its structs, their fields, its
  initialization function and the lines of that function, and the user's source text.
\<close>

fun isVertexStageCall :: "call \<Rightarrow> bool" where
  "isVertexStageCall (AddStruct structId typeName destination) = (destination = VERTEX)"
| "isVertexStageCall (AddStructField structId glslType variableName) =
     (structId = ''AttributesVS'' \<or> structId = ''VertexInput'')"
| "isVertexStageCall (AddFunction functionId signature destination) = (destination = VERTEX)"
| "isVertexStageCall (AddFunctionLine functionId line) = (functionId = ''initializeInputStructVS'')"
| "isVertexStageCall (AddVertexLines sourceLines) = True"
| "isVertexStageCall _ = False"

fun isFragmentStageCall :: "call \<Rightarrow> bool" where
  "isFragmentStageCall (AddStruct structId typeName destination) = (destination = FRAGMENT)"
| "isFragmentStageCall (AddStructField structId glslType variableName) =
     (structId = ''AttributesFS'' \<or> structId = ''FragmentInput'')"
| "isFragmentStageCall (AddFunction functionId signature destination) = (destination = FRAGMENT)"
| "isFragmentStageCall (AddFunctionLine functionId line) = (functionId = ''initializeInputStructFS'')"
| "isFragmentStageCall (AddFragmentLines sourceLines) = True"
| "isFragmentStageCall _ = False"

text \<open>The fields added to the struct \<open>structId\<close> by a sequence of calls, in order.\<close>

fun structFields :: "string \<Rightarrow> call list \<Rightarrow> field list" where
  "structFields structId [] = []"
| "structFields structId (AddStructField sid glslType variableName # calls) =
     (if sid = structId then (glslType, variableName) # structFields structId calls
      else structFields structId calls)"
| "structFields structId (_ # calls) = structFields structId calls"

text \<open>The lines added to the function \<open>functionId\<close> by a sequence of calls, in order.\<close>

fun functionLines :: "string \<Rightarrow> call list \<Rightarrow> string list" where
  "functionLines functionId [] = []"
| "functionLines functionId (AddFunctionLine fid line # calls) =
     (if fid = functionId then line # functionLines functionId calls
      else functionLines functionId calls)"
| "functionLines functionId (_ # calls) = functionLines functionId calls"

text \<open>
  What \<open>process\<close> does when the custom shader is enabled, written as lists of calls: the
  calls for an enabled vertex stage with the fields \<open>vfs\<close> and the initialization lines
  \<open>vls\<close>, those for an enabled fragment stage, the defines and declarations that follow,
  and the render resources after these calls.
\<close>

definition vertexStageCalls ::
  "('s, 't, 'mode) externals \<Rightarrow> ('lm, 'mode, 'u) customShader \<Rightarrow> field list \<Rightarrow> string list \<Rightarrow>
   call list" where
  "vertexStageCalls ext cs vfs vls =
     AddStruct ''AttributesVS'' ''Attributes'' VERTEX #
     map (\<lambda>(glslType, variableName). AddStructField ''AttributesVS'' glslType variableName) vfs @
     [AddStruct ''VertexInput'' ''VertexInput'' VERTEX,
      AddStructField ''VertexInput'' (Str ''Attributes'') ''attributes'',
      AddFunction ''initializeInputStructVS''
        ''void initializeInputStruct(out VertexInput vsInput, ProcessedAttributes attributes)''
        VERTEX] @
     map (AddFunctionLine ''initializeInputStructVS'') vls @
     [AddVertexLines [Some ''#line 0'', vertexShaderText cs, Some (CustomShaderStageVS ext)]]"

definition fragmentStageCalls ::
  "('s, 't, 'mode) externals \<Rightarrow> ('lm, 'mode, 'u) customShader \<Rightarrow> field list \<Rightarrow> field list \<Rightarrow>
   string list \<Rightarrow> call list" where
  "fragmentStageCalls ext cs ffs fis fls =
     AddStruct ''AttributesFS'' ''Attributes'' FRAGMENT #
     map (\<lambda>(glslType, variableName). AddStructField ''AttributesFS'' glslType variableName) ffs @
     [AddStruct ''FragmentInput'' ''FragmentInput'' FRAGMENT,
      AddStructField ''FragmentInput'' (Str ''Attributes'') ''attributes''] @
     map (\<lambda>(glslType, variableName). AddStructField ''FragmentInput'' glslType variableName) fis @
     [AddFunction ''initializeInputStructFS''
        ''void initializeInputStruct(out FragmentInput fsInput, ProcessedAttributes attributes)''
        FRAGMENT] @
     map (AddFunctionLine ''initializeInputStructFS'') fls @
     [AddFragmentLines [Some ''#line 0'', fragmentShaderText cs, Some (CustomShaderStageFS ext)]]"

definition declarationCalls ::
  "('s, 't, 'mode) externals \<Rightarrow> ('lm, 'mode, 'u) customShader \<Rightarrow> bool \<Rightarrow> call list" where
  "declarationCalls ext cs computePositionWC =
     (if computePositionWC then [AddDefine ''COMPUTE_POSITION_WC'' None VERTEX] else []) @
     (if vertexShaderText cs \<noteq> None
      then [AddDefine ''HAS_CUSTOM_VERTEX_SHADER'' None VERTEX] else []) @
     (if fragmentShaderText cs \<noteq> None
      then [AddDefine ''HAS_CUSTOM_FRAGMENT_SHADER'' None FRAGMENT,
            AddDefine (getDefineName ext (mode cs)) None FRAGMENT]
      else []) @
     map (\<lambda>(uniformName, u). AddUniform (uniformType u) uniformName) (uniforms cs) @
     map (\<lambda>(varyingName, varyingType). AddVarying varyingType varyingName) (varyings cs)"

definition withCustomShader ::
  "('lm, 'mode, 'u) renderResources \<Rightarrow> call list \<Rightarrow> ('lm, 'mode, 'u) renderResources" where
  "withCustomShader rr calls =
     rr\<lparr>shaderBuilder := shaderBuilder rr @ calls,
        lightingOptions_lightingModel :=
          (if lightingModel (model_customShader rr) \<noteq> None
           then lightingModel (model_customShader rr)
           else lightingOptions_lightingModel rr),
        alphaOptions_pass :=
          (if isTranslucent (model_customShader rr) then Some TRANSLUCENT else None),
        alphaOptions_alphaMode :=
          (if isTranslucent (model_customShader rr) then Some BLEND else Some OPAQUE),
        renderResources_uniformMap :=
          combine (renderResources_uniformMap rr) (uniformMap (model_customShader rr))\<rparr>"

subsection \<open>Example inputs\<close>

text \<open>
  An instance of the parameters, in which a semantic is written as its variable name, an
  attribute type as its GLSL type, and an inherited member as the V8 engine prints it;
  two primitives and a custom shader.
\<close>

definition exampleExternals :: "(string, string, string) externals" where
  "exampleExternals =
     \<lparr>getVariableName = (\<lambda>sem idx. case idx of None \<Rightarrow> sem
                                      | Some i \<Rightarrow> sem @ ''_'' @ [''0123456789'' ! (i mod 10)]),
      getGlslType = (\<lambda>t. t),
      getDefineName = (\<lambda>m. ''CUSTOM_SHADER_'' @ m),
      CustomShaderStageVS = ''// vertex epilogue'',
      CustomShaderStageFS = ''// fragment epilogue'',
      inheritedText = (\<lambda>key. if key = ''constructor'' then ''function Object() { [native code] }''
                             else if key = ''__proto__'' then ''[object Object]''
                             else ''function '' @ key @ ''() { [native code] }'')\<rparr>"

definition examplePrimitive :: "(string, string) primitive" where
  "examplePrimitive =
     \<lparr>attributes =
        [\<lparr>name = ''POSITION'', semantic = Some ''positionMC'', setIndex = None, type = ''vec3''\<rparr>,
         \<lparr>name = ''NORMAL'', semantic = Some ''normal'', setIndex = None, type = ''vec3''\<rparr>,
         \<lparr>name = ''TEXCOORD_0'', semantic = Some ''texCoord'', setIndex = Some 0, type = ''vec2''\<rparr>]\<rparr>"

definition positionOnlyPrimitive :: "(string, string) primitive" where
  "positionOnlyPrimitive =
     \<lparr>attributes =
        [\<lparr>name = ''POSITION'', semantic = Some ''positionMC'', setIndex = None, type = ''vec3''\<rparr>]\<rparr>"

definition exampleShader :: "(nat, string, int) customShader" where
  "exampleShader =
     \<lparr>vertexShaderText = Some ''void vertexMain(VertexInput vsInput, inout vec3 p) {}'',
      fragmentShaderText = Some ''void fragmentMain(FragmentInput fsInput, inout czm_modelMaterial m) {}'',
      usedVariablesVertex = \<lparr>attributeSet = [''positionMC'']\<rparr>,
      usedVariablesFragment = \<lparr>attributeSet = [], positionSet = [''positionWC'']\<rparr>,
      uniforms = [(''u_time'', \<lparr>uniformType = ''float''\<rparr>)],
      varyings = [(''v_selected'', ''float'')],
      lightingModel = None,
      mode = ''MODIFY_MATERIAL'',
      isTranslucent = False,
      uniformMap = [''u_time'' \<mapsto> 1]\<rparr>"

definition exampleResources :: "(nat, string, int) customShader \<Rightarrow> (nat, string, int) renderResources" where
  "exampleResources cs =
     \<lparr>shaderBuilder = [],
      model_customShader = cs,
      lightingOptions_lightingModel = Some 1,
      alphaOptions_pass = Some TRANSLUCENT,
      alphaOptions_alphaMode = Some BLEND,
      renderResources_uniformMap = [''u_time'' \<mapsto> 0, ''u_scale'' \<mapsto> 5]\<rparr>"

section \<open>Properties of the loops\<close>

lemmas example_defs = exampleExternals_def examplePrimitive_def positionOnlyPrimitive_def
  exampleShader_def exampleResources_def

lemmas model_defs = generateShaderLines_def getAttributeNames_def variableNameOf_def toLowerCase_def
  generateVertexShaderLines_def generateFragmentShaderLines_def partitionAttributes_def
  inferAttributeDefaults_def trimSetIndex_def isDigit_def attributeTypeLUT_def
  attributeDefaultValueLUT_def generateAttributeField_def toStr_def generatePositionBuiltins_def
  process_def addLinesToShader_def addVertexLinesToShader_def addFragmentLinesToShader_def
  combine_def firstUnresolved_def getProperty_def objectPrototype_def

lemma update_fresh: "k \<notin> fst ` set al \<Longrightarrow> AList.update k v al = al @ [(k, v)]"
  by (induction al) auto

lemma getAttributeNames_loop_distinct:
  "distinct (map fst names) \<Longrightarrow> distinct (map fst (getAttributeNames_loop ext as names))"
  by (induction as arbitrary: names) (simp_all add: distinct_update)

lemma getAttributeNames_distinct: "distinct (map fst (getAttributeNames ext as))"
  by (simp add: getAttributeNames_def getAttributeNames_loop_distinct)

lemma addToShader_loop_eq:
  "distinct (map fst P) \<Longrightarrow> fst ` set acc \<inter> fst ` set P = {} \<Longrightarrow>
   addToShader_loop P S acc = acc @ filter (\<lambda>q. fst q \<in> set S) P"
proof (induction P arbitrary: acc)
  case Nil
  then show ?case by simp
next
  case (Cons q P)
  obtain k v where q: "q = (k, v)" by (cases q)
  from Cons.prems have fresh: "k \<notin> fst ` set acc" and knP: "k \<notin> fst ` set P"
    and dP: "distinct (map fst P)" and disj: "fst ` set acc \<inter> fst ` set P = {}"
    by (auto simp: q)
  show ?case
  proof (cases "k \<in> set S")
    case True
    have "fst ` set (acc @ [(k, v)]) \<inter> fst ` set P = {}"
      using disj knP by auto
    with Cons.IH [OF dP, of "acc @ [(k, v)]"] True fresh show ?thesis
      by (simp add: q update_fresh)
  next
    case False
    with Cons.IH [OF dP disj] show ?thesis by (simp add: q)
  qed
qed

lemma missingAttributes_loop_eq:
  "missingAttributes_loop P S acc = acc @ filter (\<lambda>n. n \<notin> fst ` set P) S"
  by (induction S arbitrary: acc) simp_all

lemma partitionAttributes_eq:
  "distinct (map fst P) \<Longrightarrow>
   partitionAttributes P S =
     \<lparr>addToShader = filter (\<lambda>q. fst q \<in> set S) P,
      missingAttributes = filter (\<lambda>n. n \<notin> fst ` set P) S\<rparr>"
  by (simp add: partitionAttributes_def addToShader_loop_eq missingAttributes_loop_eq)

lemma present_loop_eq:
  "present_loop ext inp P fs ls =
     (fs @ map (\<lambda>(n, a). generateAttributeField ext n a) P,
      ls @ map (\<lambda>(n, a). inp @ ''.attributes.'' @ n @ '' = attributes.'' @ n @ '';'') P)"
  by (induction P arbitrary: fs ls) auto

lemma needsDefault_loop_Inr:
  "map inferAttributeDefaults ns = map Some ds \<Longrightarrow>
   needsDefault_loop ext inp ns fs ls =
     Inr (fs @ map attributeField ds,
          ls @ map (\<lambda>(n, d). inp @ ''.attributes.'' @ n @ '' = '' @ toStr ext (value d) @ '';'')
                   (zip ns ds))"
proof (induction ns arbitrary: ds fs ls)
  case Nil
  then show ?case by simp
next
  case (Cons n ns)
  then obtain d ds' where ds: "ds = d # ds'" and d: "inferAttributeDefaults n = Some d"
    and rest: "map inferAttributeDefaults ns = map Some ds'"
    by (cases ds) auto
  show ?case using Cons.IH [OF rest] by (simp add: ds d)
qed

lemma needsDefault_loop_find:
  "needsDefault_loop ext inp ns fs ls = Inl a \<longleftrightarrow>
   List.find (\<lambda>n. inferAttributeDefaults n = None) ns = Some a"
  by (induction ns arbitrary: fs ls) (auto split: option.splits)

lemma all_inferable_defaults:
  "(\<forall>n \<in> set ns. inferAttributeDefaults n \<noteq> None) \<Longrightarrow>
   \<exists>ds. map inferAttributeDefaults ns = map Some ds"
proof (induction ns)
  case Nil
  then show ?case by simp
next
  case (Cons n ns)
  then obtain ds d where "map inferAttributeDefaults ns = map Some ds"
    "inferAttributeDefaults n = Some d" by auto
  then have "map inferAttributeDefaults (n # ns) = map Some (d # ds)" by simp
  then show ?case by blast
qed

lemma find_filter_conv:
  "List.find P (filter Q xs) = List.find (\<lambda>x. Q x \<and> P x) xs"
  by (induction xs) auto

lemma generateVertexShaderLines_fail:
  assumes "distinct (map fst named)"
    and "List.find (\<lambda>n. n \<notin> fst ` set named \<and> inferAttributeDefaults n = None)
           (attributeSet (usedVariablesVertex cs)) = Some a"
  shows "generateVertexShaderLines ext cs named vl log =
           (vl, log @ [(''CustomShaderStage.incompatiblePrimitiveVS'',
                        ''Primitive is missing attribute '' @ a @
                        '', disabling custom vertex shader'')])"
proof -
  let ?miss = "filter (\<lambda>n. n \<notin> fst ` set named) (attributeSet (usedVariablesVertex cs))"
  have "List.find (\<lambda>n. inferAttributeDefaults n = None) ?miss = Some a"
    using assms(2) by (simp add: find_filter_conv)
  then have "\<And>fs ls. needsDefault_loop ext ''vsInput'' ?miss fs ls = Inl a"
    by (simp only: needsDefault_loop_find)
  then show ?thesis
    using assms(1)
    by (simp add: generateVertexShaderLines_def partitionAttributes_eq present_loop_eq
                  del: needsDefault_loop.simps)
qed

lemma generateVertexShaderLines_ok:
  assumes "distinct (map fst named)"
    and "map inferAttributeDefaults
           (filter (\<lambda>n. n \<notin> fst ` set named) (attributeSet (usedVariablesVertex cs))) = map Some ds"
  shows "generateVertexShaderLines ext cs named vl log =
           (vl\<lparr>enabled := True,
               attributeFields := Some
                 (map (\<lambda>(n, a). generateAttributeField ext n a)
                      (filter (\<lambda>q. fst q \<in> set (attributeSet (usedVariablesVertex cs))) named) @
                  map attributeField ds),
               initializationLines := Some
                 (map (\<lambda>(n, a). ''vsInput.attributes.'' @ n @ '' = attributes.'' @ n @ '';'')
                      (filter (\<lambda>q. fst q \<in> set (attributeSet (usedVariablesVertex cs))) named) @
                  map (\<lambda>(n, d). ''vsInput.attributes.'' @ n @ '' = '' @ toStr ext (value d) @ '';'')
                      (zip (filter (\<lambda>n. n \<notin> fst ` set named)
                              (attributeSet (usedVariablesVertex cs))) ds))\<rparr>,
            log)"
  using assms(1) needsDefault_loop_Inr [OF assms(2), where ext = ext]
  by (simp add: generateVertexShaderLines_def partitionAttributes_eq present_loop_eq
           del: needsDefault_loop.simps)

lemma generateFragmentShaderLines_fail:
  assumes "distinct (map fst named)"
    and "List.find (\<lambda>n. n \<notin> fst ` set named \<and> inferAttributeDefaults n = None)
           (attributeSet (usedVariablesFragment cs)) = Some a"
  shows "generateFragmentShaderLines ext cs named fl log =
           (fl, log @ [(''CustomShaderStage.incompatiblePrimitiveFS'',
                        ''Primitive is missing attribute '' @ a @
                        '', disabling custom fragment shader.'')])"
proof -
  let ?miss = "filter (\<lambda>n. n \<notin> fst ` set named) (attributeSet (usedVariablesFragment cs))"
  have "List.find (\<lambda>n. inferAttributeDefaults n = None) ?miss = Some a"
    using assms(2) by (simp add: find_filter_conv)
  then have "\<And>fs ls. needsDefault_loop ext ''fsInput'' ?miss fs ls = Inl a"
    by (simp only: needsDefault_loop_find)
  then show ?thesis
    using assms(1)
    by (simp add: generateFragmentShaderLines_def partitionAttributes_eq present_loop_eq
                  del: needsDefault_loop.simps)
qed

lemma generateFragmentShaderLines_ok:
  assumes "distinct (map fst named)"
    and "map inferAttributeDefaults
           (filter (\<lambda>n. n \<notin> fst ` set named) (attributeSet (usedVariablesFragment cs))) = map Some ds"
  shows "generateFragmentShaderLines ext cs named fl log =
           (fl\<lparr>enabled := True,
               attributeFields := Some
                 (map (\<lambda>(n, a). generateAttributeField ext n a)
                      (filter (\<lambda>q. fst q \<in> set (attributeSet (usedVariablesFragment cs))) named) @
                  map attributeField ds),
               fragmentInputFields := Some (fst (generatePositionBuiltins cs)),
               initializationLines := Some
                 (snd (generatePositionBuiltins cs) @
                  map (\<lambda>(n, a). ''fsInput.attributes.'' @ n @ '' = attributes.'' @ n @ '';'')
                      (filter (\<lambda>q. fst q \<in> set (attributeSet (usedVariablesFragment cs))) named) @
                  map (\<lambda>(n, d). ''fsInput.attributes.'' @ n @ '' = '' @ toStr ext (value d) @ '';'')
                      (zip (filter (\<lambda>n. n \<notin> fst ` set named)
                              (attributeSet (usedVariablesFragment cs))) ds))\<rparr>,
            log)"
  using assms(1) needsDefault_loop_Inr [OF assms(2), where ext = ext]
  by (simp add: generateFragmentShaderLines_def partitionAttributes_eq present_loop_eq
                split_beta
           del: needsDefault_loop.simps)

lemma generateShaderLines_eq:
  "generateShaderLines ext cs p log =
     (let vl0 = \<lparr>enabled = False, attributeFields = None,
                 fragmentInputFields = None, initializationLines = None\<rparr>;
          named = getAttributeNames ext (attributes p);
          V = (if vertexShaderText cs \<noteq> None
               then generateVertexShaderLines ext cs named vl0 log else (vl0, log));
          F = (if fragmentShaderText cs \<noteq> None
               then generateFragmentShaderLines ext cs named vl0 (snd V) else (vl0, snd V))
      in (\<lparr>vertexLines = fst V, fragmentLines = fst F,
           vertexLinesEnabled = enabled (fst V), fragmentLinesEnabled = enabled (fst F),
           customShaderEnabled = (enabled (fst V) \<or> enabled (fst F)),
           shouldComputePositionWC =
             (''positionWC'' \<in> set (positionSet (usedVariablesFragment cs)) \<and> enabled (fst F))\<rparr>,
          snd F))"
  by (simp add: generateShaderLines_def Let_def split_beta)

lemma find_None_all_inferable:
  "firstUnresolved named used = None \<Longrightarrow>
   \<exists>ds. map inferAttributeDefaults (filter (\<lambda>n. n \<notin> fst ` set named) used) = map Some ds"
  by (rule all_inferable_defaults) (auto simp: firstUnresolved_def find_None_iff)

lemma vertex_enabled_iff:
  "enabled (vertexLines (fst (generateShaderLines ext cs p log))) \<longleftrightarrow>
   vertexShaderText cs \<noteq> None \<and>
   firstUnresolved (getAttributeNames ext (attributes p)) (attributeSet (usedVariablesVertex cs)) = None"
proof (cases "firstUnresolved (getAttributeNames ext (attributes p))
                (attributeSet (usedVariablesVertex cs))")
  case None
  from find_None_all_inferable [OF None] obtain ds where
    "map inferAttributeDefaults
       (filter (\<lambda>n. n \<notin> fst ` set (getAttributeNames ext (attributes p)))
          (attributeSet (usedVariablesVertex cs))) = map Some ds" ..
  from generateVertexShaderLines_ok [OF getAttributeNames_distinct this] None
  show ?thesis by (simp add: generateShaderLines_eq Let_def)
next
  case (Some a)
  from generateVertexShaderLines_fail [OF getAttributeNames_distinct Some [unfolded firstUnresolved_def]]
  show ?thesis using Some by (simp add: generateShaderLines_eq Let_def)
qed

lemma fragment_enabled_iff:
  "enabled (fragmentLines (fst (generateShaderLines ext cs p log))) \<longleftrightarrow>
   fragmentShaderText cs \<noteq> None \<and>
   firstUnresolved (getAttributeNames ext (attributes p)) (attributeSet (usedVariablesFragment cs)) = None"
proof (cases "firstUnresolved (getAttributeNames ext (attributes p))
                (attributeSet (usedVariablesFragment cs))")
  case None
  from find_None_all_inferable [OF None] obtain ds where
    "map inferAttributeDefaults
       (filter (\<lambda>n. n \<notin> fst ` set (getAttributeNames ext (attributes p)))
          (attributeSet (usedVariablesFragment cs))) = map Some ds" ..
  from generateFragmentShaderLines_ok [OF getAttributeNames_distinct this] None
  show ?thesis by (simp add: generateShaderLines_eq Let_def)
next
  case (Some a)
  from generateFragmentShaderLines_fail [OF getAttributeNames_distinct Some [unfolded firstUnresolved_def]]
  show ?thesis using Some by (simp add: generateShaderLines_eq Let_def)
qed

lemma process_disabled:
  "\<not> customShaderEnabled (fst (generateShaderLines ext (model_customShader rr) p log)) \<Longrightarrow>
   process ext rr p fr log = Inr (rr, snd (generateShaderLines ext (model_customShader rr) p log))"
  by (simp add: process_def split_beta Let_def)

lemma addLinesToShader_eq:
  assumes V: "enabled (vertexLines gc) \<Longrightarrow>
              attributeFields (vertexLines gc) = Some vfs \<and>
              initializationLines (vertexLines gc) = Some vls"
    and F: "enabled (fragmentLines gc) \<Longrightarrow>
            attributeFields (fragmentLines gc) = Some ffs \<and>
            fragmentInputFields (fragmentLines gc) = Some fis \<and>
            initializationLines (fragmentLines gc) = Some fls"
  shows "addLinesToShader ext sb cs gc =
     Inr (sb @
       (if enabled (vertexLines gc) then vertexStageCalls ext cs vfs vls else []) @
       (if enabled (fragmentLines gc) then fragmentStageCalls ext cs ffs fis fls else []))"
proof (cases "enabled (vertexLines gc)")
  case True
  note v = V [OF True]
  show ?thesis
  proof (cases "enabled (fragmentLines gc)")
    case True
    note f = F [OF True]
    show ?thesis using \<open>enabled (vertexLines gc)\<close> True v f
      by (simp add: addLinesToShader_def addVertexLinesToShader_def addFragmentLinesToShader_def
                    vertexStageCalls_def fragmentStageCalls_def)
  next
    case False
    then show ?thesis using \<open>enabled (vertexLines gc)\<close> v
      by (simp add: addLinesToShader_def addVertexLinesToShader_def vertexStageCalls_def)
  qed
next
  case False
  show ?thesis
  proof (cases "enabled (fragmentLines gc)")
    case True
    note f = F [OF True]
    show ?thesis using False True f
      by (simp add: addLinesToShader_def addFragmentLinesToShader_def fragmentStageCalls_def)
  next
    case False
    then show ?thesis using \<open>\<not> enabled (vertexLines gc)\<close>
      by (simp add: addLinesToShader_def)
  qed
qed

lemma process_enabled:
  assumes gen: "generateShaderLines ext (model_customShader rr) p log = (gc, log')"
    and en: "customShaderEnabled gc"
    and V: "enabled (vertexLines gc) \<Longrightarrow>
            attributeFields (vertexLines gc) = Some vfs \<and>
            initializationLines (vertexLines gc) = Some vls"
    and F: "enabled (fragmentLines gc) \<Longrightarrow>
            attributeFields (fragmentLines gc) = Some ffs \<and>
            fragmentInputFields (fragmentLines gc) = Some fis \<and>
            initializationLines (fragmentLines gc) = Some fls"
  shows "process ext rr p fr log =
     Inr (withCustomShader rr
            ((if enabled (vertexLines gc)
              then vertexStageCalls ext (model_customShader rr) vfs vls else []) @
             (if enabled (fragmentLines gc)
              then fragmentStageCalls ext (model_customShader rr) ffs fis fls else []) @
             declarationCalls ext (model_customShader rr) (shouldComputePositionWC gc)),
          log')"
proof -
  have app: "\<And>c (xs::call list) ys. (if c then xs @ ys else xs) = xs @ (if c then ys else [])"
    by simp
  show ?thesis
    using en
    apply (simp only: process_def Let_def gen prod.case)
    apply (simp only: addLinesToShader_eq [OF V F] sum.case app)
    apply (simp add: withCustomShader_def declarationCalls_def split del: if_split cong: if_cong)
    apply (simp split: if_split)
    done
qed

lemma generateVertexShaderLines_fst:
  "fst (generateVertexShaderLines ext cs named vl log) =
   fst (generateVertexShaderLines ext cs named vl [])"
  by (simp add: generateVertexShaderLines_def Let_def split: prod.splits sum.splits)

lemma generateVertexShaderLines_snd:
  "snd (generateVertexShaderLines ext cs named vl log) =
   log @ snd (generateVertexShaderLines ext cs named vl [])"
  by (simp add: generateVertexShaderLines_def Let_def split: prod.splits sum.splits)

lemma generateFragmentShaderLines_fst:
  "fst (generateFragmentShaderLines ext cs named fl log) =
   fst (generateFragmentShaderLines ext cs named fl [])"
  by (simp add: generateFragmentShaderLines_def Let_def split: prod.splits sum.splits)

lemma generateFragmentShaderLines_snd:
  "snd (generateFragmentShaderLines ext cs named fl log) =
   log @ snd (generateFragmentShaderLines ext cs named fl [])"
  by (simp add: generateFragmentShaderLines_def Let_def split: prod.splits sum.splits)

lemma generateShaderLines_log:
  "fst (generateShaderLines ext cs p log) = fst (generateShaderLines ext cs p []) \<and>
   snd (generateShaderLines ext cs p log) = log @ snd (generateShaderLines ext cs p [])"
proof -
  define vl0 where "vl0 = \<lparr>enabled = False, attributeFields = None,
                           fragmentInputFields = None, initializationLines = None\<rparr>"
  define named where "named = getAttributeNames ext (attributes p)"
  define V where "V l = (if vertexShaderText cs \<noteq> None
                         then generateVertexShaderLines ext cs named vl0 l else (vl0, l))" for l
  define F where "F l = (if fragmentShaderText cs \<noteq> None
                         then generateFragmentShaderLines ext cs named vl0 l else (vl0, l))" for l
  have Vf: "fst (V l) = fst (V [])" for l
    using generateVertexShaderLines_fst [of ext cs named vl0 l] by (simp add: V_def)
  have Vs: "snd (V l) = l @ snd (V [])" for l
    using generateVertexShaderLines_snd [of ext cs named vl0 l] by (simp add: V_def)
  have Ff: "fst (F l) = fst (F [])" for l
    using generateFragmentShaderLines_fst [of ext cs named vl0 l] by (simp add: F_def)
  have Fs: "snd (F l) = l @ snd (F [])" for l
    using generateFragmentShaderLines_snd [of ext cs named vl0 l] by (simp add: F_def)
  have G: "generateShaderLines ext cs p l =
      (\<lparr>vertexLines = fst (V l), fragmentLines = fst (F (snd (V l))),
        vertexLinesEnabled = enabled (fst (V l)),
        fragmentLinesEnabled = enabled (fst (F (snd (V l)))),
        customShaderEnabled = (enabled (fst (V l)) \<or> enabled (fst (F (snd (V l))))),
        shouldComputePositionWC =
          (''positionWC'' \<in> set (positionSet (usedVariablesFragment cs)) \<and>
           enabled (fst (F (snd (V l)))))\<rparr>,
       snd (F (snd (V l))))" for l
    by (simp only: generateShaderLines_eq Let_def V_def F_def vl0_def named_def)
  have F1: "fst (F (snd (V log))) = fst (F (snd (V [])))"
    using Ff [of "snd (V log)"] Ff [of "snd (V [])"] by simp
  have F2: "snd (F (snd (V log))) = log @ snd (F (snd (V [])))"
    using Fs [of "snd (V log)"] Fs [of "snd (V [])"] Vs [of log] by simp
  show ?thesis
    by (simp only: G [of log] G [of "[]"] fst_conv snd_conv Vf [of log] F1 F2)
qed

lemma vertexLines_enabled_eq:
  assumes en: "enabled (vertexLines (fst (generateShaderLines ext cs p log)))"
  shows "\<exists>ds. map inferAttributeDefaults
                (filter (\<lambda>n. n \<notin> fst ` set (getAttributeNames ext (attributes p)))
                   (attributeSet (usedVariablesVertex cs))) = map Some ds \<and>
          vertexLines (fst (generateShaderLines ext cs p log)) =
            \<lparr>enabled = True,
             attributeFields = Some
               (map (\<lambda>(n, a). generateAttributeField ext n a)
                    (filter (\<lambda>q. fst q \<in> set (attributeSet (usedVariablesVertex cs)))
                       (getAttributeNames ext (attributes p))) @
                map attributeField ds),
             fragmentInputFields = None,
             initializationLines = Some
               (map (\<lambda>(n, a). ''vsInput.attributes.'' @ n @ '' = attributes.'' @ n @ '';'')
                    (filter (\<lambda>q. fst q \<in> set (attributeSet (usedVariablesVertex cs)))
                       (getAttributeNames ext (attributes p))) @
                map (\<lambda>(n, d). ''vsInput.attributes.'' @ n @ '' = '' @ toStr ext (value d) @ '';'')
                    (zip (filter (\<lambda>n. n \<notin> fst ` set (getAttributeNames ext (attributes p)))
                            (attributeSet (usedVariablesVertex cs))) ds))\<rparr>"
proof -
  from en have t: "vertexShaderText cs \<noteq> None"
    and u: "firstUnresolved (getAttributeNames ext (attributes p))
              (attributeSet (usedVariablesVertex cs)) = None"
    by (simp_all add: vertex_enabled_iff)
  from find_None_all_inferable [OF u] obtain ds where
    ds: "map inferAttributeDefaults
       (filter (\<lambda>n. n \<notin> fst ` set (getAttributeNames ext (attributes p)))
          (attributeSet (usedVariablesVertex cs))) = map Some ds" ..
  from generateVertexShaderLines_ok [OF getAttributeNames_distinct ds] t
  have "vertexLines (fst (generateShaderLines ext cs p log)) =
            \<lparr>enabled = True,
             attributeFields = Some
               (map (\<lambda>(n, a). generateAttributeField ext n a)
                    (filter (\<lambda>q. fst q \<in> set (attributeSet (usedVariablesVertex cs)))
                       (getAttributeNames ext (attributes p))) @
                map attributeField ds),
             fragmentInputFields = None,
             initializationLines = Some
               (map (\<lambda>(n, a). ''vsInput.attributes.'' @ n @ '' = attributes.'' @ n @ '';'')
                    (filter (\<lambda>q. fst q \<in> set (attributeSet (usedVariablesVertex cs)))
                       (getAttributeNames ext (attributes p))) @
                map (\<lambda>(n, d). ''vsInput.attributes.'' @ n @ '' = '' @ toStr ext (value d) @ '';'')
                    (zip (filter (\<lambda>n. n \<notin> fst ` set (getAttributeNames ext (attributes p)))
                            (attributeSet (usedVariablesVertex cs))) ds))\<rparr>"
    by (simp add: generateShaderLines_eq Let_def)
  with ds show ?thesis by blast
qed

lemma fragmentLines_enabled_eq:
  assumes en: "enabled (fragmentLines (fst (generateShaderLines ext cs p log)))"
  shows "\<exists>ds. map inferAttributeDefaults
                (filter (\<lambda>n. n \<notin> fst ` set (getAttributeNames ext (attributes p)))
                   (attributeSet (usedVariablesFragment cs))) = map Some ds \<and>
          fragmentLines (fst (generateShaderLines ext cs p log)) =
            \<lparr>enabled = True,
             attributeFields = Some
               (map (\<lambda>(n, a). generateAttributeField ext n a)
                    (filter (\<lambda>q. fst q \<in> set (attributeSet (usedVariablesFragment cs)))
                       (getAttributeNames ext (attributes p))) @
                map attributeField ds),
             fragmentInputFields = Some (fst (generatePositionBuiltins cs)),
             initializationLines = Some
               (snd (generatePositionBuiltins cs) @
                map (\<lambda>(n, a). ''fsInput.attributes.'' @ n @ '' = attributes.'' @ n @ '';'')
                    (filter (\<lambda>q. fst q \<in> set (attributeSet (usedVariablesFragment cs)))
                       (getAttributeNames ext (attributes p))) @
                map (\<lambda>(n, d). ''fsInput.attributes.'' @ n @ '' = '' @ toStr ext (value d) @ '';'')
                    (zip (filter (\<lambda>n. n \<notin> fst ` set (getAttributeNames ext (attributes p)))
                            (attributeSet (usedVariablesFragment cs))) ds))\<rparr>"
proof -
  from en have t: "fragmentShaderText cs \<noteq> None"
    and u: "firstUnresolved (getAttributeNames ext (attributes p))
              (attributeSet (usedVariablesFragment cs)) = None"
    by (simp_all add: fragment_enabled_iff)
  from find_None_all_inferable [OF u] obtain ds where
    ds: "map inferAttributeDefaults
       (filter (\<lambda>n. n \<notin> fst ` set (getAttributeNames ext (attributes p)))
          (attributeSet (usedVariablesFragment cs))) = map Some ds" ..
  from generateFragmentShaderLines_ok [OF getAttributeNames_distinct ds] t
  have "fragmentLines (fst (generateShaderLines ext cs p log)) =
            \<lparr>enabled = True,
             attributeFields = Some
               (map (\<lambda>(n, a). generateAttributeField ext n a)
                    (filter (\<lambda>q. fst q \<in> set (attributeSet (usedVariablesFragment cs)))
                       (getAttributeNames ext (attributes p))) @
                map attributeField ds),
             fragmentInputFields = Some (fst (generatePositionBuiltins cs)),
             initializationLines = Some
               (snd (generatePositionBuiltins cs) @
                map (\<lambda>(n, a). ''fsInput.attributes.'' @ n @ '' = attributes.'' @ n @ '';'')
                    (filter (\<lambda>q. fst q \<in> set (attributeSet (usedVariablesFragment cs)))
                       (getAttributeNames ext (attributes p))) @
                map (\<lambda>(n, d). ''fsInput.attributes.'' @ n @ '' = '' @ toStr ext (value d) @ '';'')
                    (zip (filter (\<lambda>n. n \<notin> fst ` set (getAttributeNames ext (attributes p)))
                            (attributeSet (usedVariablesFragment cs))) ds))\<rparr>"
    by (simp add: generateShaderLines_eq Let_def)
  with ds show ?thesis by blast
qed

lemma generated_flags:
  "vertexLinesEnabled (fst (generateShaderLines ext cs p log)) =
     enabled (vertexLines (fst (generateShaderLines ext cs p log))) \<and>
   fragmentLinesEnabled (fst (generateShaderLines ext cs p log)) =
     enabled (fragmentLines (fst (generateShaderLines ext cs p log))) \<and>
   customShaderEnabled (fst (generateShaderLines ext cs p log)) =
     (enabled (vertexLines (fst (generateShaderLines ext cs p log))) \<or>
      enabled (fragmentLines (fst (generateShaderLines ext cs p log)))) \<and>
   shouldComputePositionWC (fst (generateShaderLines ext cs p log)) =
     (''positionWC'' \<in> set (positionSet (usedVariablesFragment cs)) \<and>
      enabled (fragmentLines (fst (generateShaderLines ext cs p log))))"
  by (simp add: generateShaderLines_eq Let_def)

lemma generated_wf:
  "\<exists>vfs vls ffs fis fls.
     (enabled (vertexLines (fst (generateShaderLines ext cs p log))) \<longrightarrow>
        attributeFields (vertexLines (fst (generateShaderLines ext cs p log))) = Some vfs \<and>
        initializationLines (vertexLines (fst (generateShaderLines ext cs p log))) = Some vls) \<and>
     (enabled (fragmentLines (fst (generateShaderLines ext cs p log))) \<longrightarrow>
        attributeFields (fragmentLines (fst (generateShaderLines ext cs p log))) = Some ffs \<and>
        fragmentInputFields (fragmentLines (fst (generateShaderLines ext cs p log))) = Some fis \<and>
        initializationLines (fragmentLines (fst (generateShaderLines ext cs p log))) = Some fls)"
proof -
  have "\<exists>vfs vls. enabled (vertexLines (fst (generateShaderLines ext cs p log))) \<longrightarrow>
        attributeFields (vertexLines (fst (generateShaderLines ext cs p log))) = Some vfs \<and>
        initializationLines (vertexLines (fst (generateShaderLines ext cs p log))) = Some vls"
  proof (cases "enabled (vertexLines (fst (generateShaderLines ext cs p log)))")
    case True
    from vertexLines_enabled_eq [OF True] show ?thesis
      by (elim exE conjE) simp
  next
    case False
    then show ?thesis by simp
  qed
  moreover
  have "\<exists>ffs fis fls. enabled (fragmentLines (fst (generateShaderLines ext cs p log))) \<longrightarrow>
        attributeFields (fragmentLines (fst (generateShaderLines ext cs p log))) = Some ffs \<and>
        fragmentInputFields (fragmentLines (fst (generateShaderLines ext cs p log))) = Some fis \<and>
        initializationLines (fragmentLines (fst (generateShaderLines ext cs p log))) = Some fls"
  proof (cases "enabled (fragmentLines (fst (generateShaderLines ext cs p log)))")
    case True
    from fragmentLines_enabled_eq [OF True] show ?thesis
      by (elim exE conjE) simp
  next
    case False
    then show ?thesis by simp
  qed
  ultimately show ?thesis by blast
qed


lemma process_total:
  assumes gen: "generateShaderLines ext (model_customShader rr) p log = (gc, log')"
  shows "\<exists>vfs vls ffs fis fls.
     (enabled (vertexLines gc) \<longrightarrow>
        attributeFields (vertexLines gc) = Some vfs \<and>
        initializationLines (vertexLines gc) = Some vls) \<and>
     (enabled (fragmentLines gc) \<longrightarrow>
        attributeFields (fragmentLines gc) = Some ffs \<and>
        fragmentInputFields (fragmentLines gc) = Some fis \<and>
        initializationLines (fragmentLines gc) = Some fls) \<and>
     process ext rr p fr log =
      (if \<not> customShaderEnabled gc then Inr (rr, log') else
       Inr (withCustomShader rr
              ((if enabled (vertexLines gc)
                then vertexStageCalls ext (model_customShader rr) vfs vls else []) @
               (if enabled (fragmentLines gc)
                then fragmentStageCalls ext (model_customShader rr) ffs fis fls else []) @
               declarationCalls ext (model_customShader rr) (shouldComputePositionWC gc)),
            log'))"
proof -
  from gen have gc: "gc = fst (generateShaderLines ext (model_customShader rr) p log)"
    and log': "log' = snd (generateShaderLines ext (model_customShader rr) p log)"
    by simp_all
  from generated_wf [of ext "model_customShader rr" p log] obtain vfs vls ffs fis fls where
    V: "enabled (vertexLines gc) \<longrightarrow>
        attributeFields (vertexLines gc) = Some vfs \<and>
        initializationLines (vertexLines gc) = Some vls"
    and F: "enabled (fragmentLines gc) \<longrightarrow>
        attributeFields (fragmentLines gc) = Some ffs \<and>
        fragmentInputFields (fragmentLines gc) = Some fis \<and>
        initializationLines (fragmentLines gc) = Some fls"
    unfolding gc by blast
  show ?thesis
  proof (cases "customShaderEnabled gc")
    case True
    have c: "(\<not> customShaderEnabled gc) = False" using True by simp
    show ?thesis
      apply (rule exI [of _ vfs], rule exI [of _ vls], rule exI [of _ ffs],
             rule exI [of _ fis], rule exI [of _ fls])
      apply (simp only: c if_False)
      apply (intro conjI)
        apply (rule V)
       apply (rule F)
      apply (rule process_enabled [OF gen True V [rule_format] F [rule_format]])
       apply assumption+
      done
  next
    case False
    have c: "(\<not> customShaderEnabled gc) = True" using False by simp
    have d: "process ext rr p fr log = Inr (rr, log')"
      using process_disabled [of ext rr p log fr] False by (simp add: gc log')
    show ?thesis
      apply (rule exI [of _ vfs], rule exI [of _ vls], rule exI [of _ ffs],
             rule exI [of _ fis], rule exI [of _ fls])
      apply (simp only: c if_True)
      apply (intro conjI)
        apply (rule V)
       apply (rule F)
      apply (rule d)
      done
  qed
qed

lemma structFields_append:
  "structFields s (xs @ ys) = structFields s xs @ structFields s ys"
  by (induction s xs rule: structFields.induct) simp_all

lemma functionLines_append:
  "functionLines f (xs @ ys) = functionLines f xs @ functionLines f ys"
  by (induction f xs rule: functionLines.induct) simp_all

lemma structFields_map_fields:
  "structFields s (map (\<lambda>(ty, n). AddStructField s' ty n) fs) = (if s' = s then fs else [])"
  by (induction fs) auto

lemma structFields_map_lines: "structFields s (map (AddFunctionLine f) ls) = []"
  by (induction ls) simp_all

lemma structFields_map_uniforms:
  "structFields s (map (\<lambda>(n, u). AddUniform (uniformType u) n) us) = []"
  by (induction us) auto

lemma structFields_map_varyings:
  "structFields s (map (\<lambda>(n, t). AddVarying t n) vs) = []"
  by (induction vs) auto

lemma functionLines_map_fields:
  "functionLines f (map (\<lambda>(ty, n). AddStructField s ty n) fs) = []"
  by (induction fs) auto

lemma functionLines_map_lines:
  "functionLines f (map (AddFunctionLine f') ls) = (if f' = f then ls else [])"
  by (induction ls) auto

lemma functionLines_map_uniforms:
  "functionLines f (map (\<lambda>(n, u). AddUniform (uniformType u) n) us) = []"
  by (induction us) auto

lemma functionLines_map_varyings:
  "functionLines f (map (\<lambda>(n, t). AddVarying t n) vs) = []"
  by (induction vs) auto

lemma vertexStageCalls_facts:
  "filter isFragmentStageCall (vertexStageCalls ext cs vfs vls) = []"
  "structFields ''AttributesVS'' (vertexStageCalls ext cs vfs vls) = vfs"
  "structFields ''AttributesFS'' (vertexStageCalls ext cs vfs vls) = []"
  "functionLines ''initializeInputStructVS'' (vertexStageCalls ext cs vfs vls) = vls"
  "functionLines ''initializeInputStructFS'' (vertexStageCalls ext cs vfs vls) = []"
  "AddDefine d v dest \<notin> set (vertexStageCalls ext cs vfs vls)"
  "AddFragmentLines ls \<notin> set (vertexStageCalls ext cs vfs vls)"
  "AddVertexLines [Some ''#line 0'', vertexShaderText cs, Some (CustomShaderStageVS ext)]
     \<in> set (vertexStageCalls ext cs vfs vls)"
  by (auto simp: vertexStageCalls_def filter_empty_conv structFields_append
        structFields_map_fields structFields_map_lines functionLines_append
        functionLines_map_fields functionLines_map_lines)

lemma fragmentStageCalls_facts:
  "filter isVertexStageCall (fragmentStageCalls ext cs ffs fis fls) = []"
  "structFields ''AttributesFS'' (fragmentStageCalls ext cs ffs fis fls) = ffs"
  "structFields ''FragmentInput'' (fragmentStageCalls ext cs ffs fis fls) =
     (Str ''Attributes'', ''attributes'') # fis"
  "structFields ''AttributesVS'' (fragmentStageCalls ext cs ffs fis fls) = []"
  "functionLines ''initializeInputStructFS'' (fragmentStageCalls ext cs ffs fis fls) = fls"
  "functionLines ''initializeInputStructVS'' (fragmentStageCalls ext cs ffs fis fls) = []"
  "AddDefine d v dest \<notin> set (fragmentStageCalls ext cs ffs fis fls)"
  "AddVertexLines ls \<notin> set (fragmentStageCalls ext cs ffs fis fls)"
  "AddFragmentLines [Some ''#line 0'', fragmentShaderText cs, Some (CustomShaderStageFS ext)]
     \<in> set (fragmentStageCalls ext cs ffs fis fls)"
  by (auto simp: fragmentStageCalls_def filter_empty_conv structFields_append
        structFields_map_fields structFields_map_lines functionLines_append
        functionLines_map_fields functionLines_map_lines)

lemma declarationCalls_facts:
  "filter isVertexStageCall (declarationCalls ext cs c) = []"
  "filter isFragmentStageCall (declarationCalls ext cs c) = []"
  "structFields s (declarationCalls ext cs c) = []"
  "functionLines f (declarationCalls ext cs c) = []"
  "AddVertexLines ls \<notin> set (declarationCalls ext cs c)"
  "AddFragmentLines ls \<notin> set (declarationCalls ext cs c)"
  by (auto simp: declarationCalls_def filter_empty_conv structFields_append
        structFields_map_uniforms structFields_map_varyings functionLines_append
        functionLines_map_uniforms functionLines_map_varyings)

lemma declarationCalls_defines:
  "AddDefine ''COMPUTE_POSITION_WC'' None VERTEX \<in> set (declarationCalls ext cs c) \<longleftrightarrow> c"
  "AddDefine ''HAS_CUSTOM_VERTEX_SHADER'' None VERTEX \<in> set (declarationCalls ext cs c) \<longleftrightarrow>
     vertexShaderText cs \<noteq> None"
  "AddDefine ''HAS_CUSTOM_FRAGMENT_SHADER'' None FRAGMENT \<in> set (declarationCalls ext cs c) \<longleftrightarrow>
     fragmentShaderText cs \<noteq> None"
  "fragmentShaderText cs \<noteq> None \<Longrightarrow>
     AddDefine (getDefineName ext (mode cs)) None FRAGMENT \<in> set (declarationCalls ext cs c)"
  by (auto simp: declarationCalls_def)


lemma process_effects:
  assumes gen: "generateShaderLines ext (model_customShader rr) p log = (gc, log')"
  shows "\<exists>rr' calls.
     process ext rr p fr log = Inr (rr', log') \<and>
     shaderBuilder rr' = shaderBuilder rr @ calls \<and>
     (\<not> customShaderEnabled gc \<longrightarrow> rr' = rr \<and> calls = []) \<and>
     (\<not> enabled (vertexLines gc) \<longrightarrow> filter isVertexStageCall calls = []) \<and>
     (\<not> enabled (fragmentLines gc) \<longrightarrow> filter isFragmentStageCall calls = []) \<and>
     (enabled (vertexLines gc) \<longrightarrow>
        attributeFields (vertexLines gc) = Some (structFields ''AttributesVS'' calls) \<and>
        initializationLines (vertexLines gc) =
          Some (functionLines ''initializeInputStructVS'' calls) \<and>
        AddVertexLines [Some ''#line 0'', vertexShaderText (model_customShader rr),
                        Some (CustomShaderStageVS ext)] \<in> set calls) \<and>
     (enabled (fragmentLines gc) \<longrightarrow>
        attributeFields (fragmentLines gc) = Some (structFields ''AttributesFS'' calls) \<and>
        initializationLines (fragmentLines gc) =
          Some (functionLines ''initializeInputStructFS'' calls) \<and>
        AddFragmentLines [Some ''#line 0'', fragmentShaderText (model_customShader rr),
                          Some (CustomShaderStageFS ext)] \<in> set calls) \<and>
     (AddDefine ''COMPUTE_POSITION_WC'' None VERTEX \<in> set calls \<longleftrightarrow>
        shouldComputePositionWC gc) \<and>
     (AddDefine ''HAS_CUSTOM_VERTEX_SHADER'' None VERTEX \<in> set calls \<longleftrightarrow>
        customShaderEnabled gc \<and> vertexShaderText (model_customShader rr) \<noteq> None) \<and>
     (AddDefine ''HAS_CUSTOM_FRAGMENT_SHADER'' None FRAGMENT \<in> set calls \<longleftrightarrow>
        customShaderEnabled gc \<and> fragmentShaderText (model_customShader rr) \<noteq> None) \<and>
     (customShaderEnabled gc \<and> fragmentShaderText (model_customShader rr) \<noteq> None \<longrightarrow>
        AddDefine (getDefineName ext (mode (model_customShader rr))) None FRAGMENT \<in> set calls) \<and>
     (customShaderEnabled gc \<longrightarrow>
        alphaOptions_pass rr' =
          (if isTranslucent (model_customShader rr) then Some TRANSLUCENT else None) \<and>
        alphaOptions_alphaMode rr' =
          (if isTranslucent (model_customShader rr) then Some BLEND else Some OPAQUE) \<and>
        lightingOptions_lightingModel rr' =
          (if lightingModel (model_customShader rr) \<noteq> None
           then lightingModel (model_customShader rr) else lightingOptions_lightingModel rr) \<and>
        renderResources_uniformMap rr' =
          combine (renderResources_uniformMap rr) (uniformMap (model_customShader rr)) \<and>
        model_customShader rr' = model_customShader rr)"
proof -
  let ?cs = "model_customShader rr"
  from gen have gc: "gc = fst (generateShaderLines ext ?cs p log)" by simp
  from process_total [OF gen, of fr] obtain vfs vls ffs fis fls where
    V: "enabled (vertexLines gc) \<longrightarrow>
        attributeFields (vertexLines gc) = Some vfs \<and>
        initializationLines (vertexLines gc) = Some vls"
    and F: "enabled (fragmentLines gc) \<longrightarrow>
        attributeFields (fragmentLines gc) = Some ffs \<and>
        fragmentInputFields (fragmentLines gc) = Some fis \<and>
        initializationLines (fragmentLines gc) = Some fls"
    and P: "process ext rr p fr log =
      (if \<not> customShaderEnabled gc then Inr (rr, log') else
       Inr (withCustomShader rr
              ((if enabled (vertexLines gc)
                then vertexStageCalls ext (model_customShader rr) vfs vls else []) @
               (if enabled (fragmentLines gc)
                then fragmentStageCalls ext (model_customShader rr) ffs fis fls else []) @
               declarationCalls ext (model_customShader rr) (shouldComputePositionWC gc)),
            log'))"
    by blast
  have flags: "customShaderEnabled gc = (enabled (vertexLines gc) \<or> enabled (fragmentLines gc))"
    "shouldComputePositionWC gc =
       (''positionWC'' \<in> set (positionSet (usedVariablesFragment ?cs)) \<and>
        enabled (fragmentLines gc))"
    unfolding gc using generated_flags [of ext ?cs p log] by simp_all
  show ?thesis
  proof (cases "customShaderEnabled gc")
    case False
    with flags have nv: "\<not> enabled (vertexLines gc)" and nf: "\<not> enabled (fragmentLines gc)"
      and nc: "\<not> shouldComputePositionWC gc" by simp_all
    from P False have "process ext rr p fr log = Inr (rr, log')" by simp
    with False nv nf nc show ?thesis
      by (intro exI [of _ rr] exI [of _ "[]"]) simp
  next
    case True
    define calls where "calls =
               (if enabled (vertexLines gc)
                then vertexStageCalls ext (model_customShader rr) vfs vls else []) @
               (if enabled (fragmentLines gc)
                then fragmentStageCalls ext (model_customShader rr) ffs fis fls else []) @
               declarationCalls ext (model_customShader rr) (shouldComputePositionWC gc)"
    from P True have p: "process ext rr p fr log = Inr (withCustomShader rr calls, log')"
      by (simp add: calls_def)
    have sb: "shaderBuilder (withCustomShader rr calls) = shaderBuilder rr @ calls"
      by (simp add: withCustomShader_def)
    have nv: "\<not> enabled (vertexLines gc) \<longrightarrow> filter isVertexStageCall calls = []"
      by (simp add: calls_def fragmentStageCalls_facts declarationCalls_facts)
    have nf: "\<not> enabled (fragmentLines gc) \<longrightarrow> filter isFragmentStageCall calls = []"
      by (simp add: calls_def vertexStageCalls_facts declarationCalls_facts)
    have ev: "enabled (vertexLines gc) \<longrightarrow>
        attributeFields (vertexLines gc) = Some (structFields ''AttributesVS'' calls) \<and>
        initializationLines (vertexLines gc) =
          Some (functionLines ''initializeInputStructVS'' calls) \<and>
        AddVertexLines [Some ''#line 0'', vertexShaderText (model_customShader rr),
                        Some (CustomShaderStageVS ext)] \<in> set calls"
      using V
      by (simp add: calls_def structFields_append functionLines_append
            vertexStageCalls_facts fragmentStageCalls_facts declarationCalls_facts)
    have ef: "enabled (fragmentLines gc) \<longrightarrow>
        attributeFields (fragmentLines gc) = Some (structFields ''AttributesFS'' calls) \<and>
        initializationLines (fragmentLines gc) =
          Some (functionLines ''initializeInputStructFS'' calls) \<and>
        AddFragmentLines [Some ''#line 0'', fragmentShaderText (model_customShader rr),
                          Some (CustomShaderStageFS ext)] \<in> set calls"
      using F
      by (simp add: calls_def structFields_append functionLines_append
            vertexStageCalls_facts fragmentStageCalls_facts declarationCalls_facts)
    have d1: "AddDefine ''COMPUTE_POSITION_WC'' None VERTEX \<in> set calls \<longleftrightarrow>
        shouldComputePositionWC gc"
      by (simp add: calls_def vertexStageCalls_facts fragmentStageCalls_facts
            declarationCalls_defines)
    have d2: "AddDefine ''HAS_CUSTOM_VERTEX_SHADER'' None VERTEX \<in> set calls \<longleftrightarrow>
        customShaderEnabled gc \<and> vertexShaderText (model_customShader rr) \<noteq> None"
      using True
      by (simp add: calls_def vertexStageCalls_facts fragmentStageCalls_facts
            declarationCalls_defines)
    have d3: "AddDefine ''HAS_CUSTOM_FRAGMENT_SHADER'' None FRAGMENT \<in> set calls \<longleftrightarrow>
        customShaderEnabled gc \<and> fragmentShaderText (model_customShader rr) \<noteq> None"
      using True
      by (simp add: calls_def vertexStageCalls_facts fragmentStageCalls_facts
            declarationCalls_defines)
    have d4: "customShaderEnabled gc \<and> fragmentShaderText (model_customShader rr) \<noteq> None \<longrightarrow>
        AddDefine (getDefineName ext (mode (model_customShader rr))) None FRAGMENT \<in> set calls"
      by (simp add: calls_def declarationCalls_defines)
    have r: "alphaOptions_pass (withCustomShader rr calls) =
          (if isTranslucent (model_customShader rr) then Some TRANSLUCENT else None) \<and>
        alphaOptions_alphaMode (withCustomShader rr calls) =
          (if isTranslucent (model_customShader rr) then Some BLEND else Some OPAQUE) \<and>
        lightingOptions_lightingModel (withCustomShader rr calls) =
          (if lightingModel (model_customShader rr) \<noteq> None
           then lightingModel (model_customShader rr) else lightingOptions_lightingModel rr) \<and>
        renderResources_uniformMap (withCustomShader rr calls) =
          combine (renderResources_uniformMap rr) (uniformMap (model_customShader rr)) \<and>
        model_customShader (withCustomShader rr calls) = model_customShader rr"
      by (simp add: withCustomShader_def)
    show ?thesis
      apply (rule exI [of _ "withCustomShader rr calls"], rule exI [of _ calls])
      using p sb nv nf ev ef d1 d2 d3 d4 r True
      apply (intro conjI)
      apply (assumption | simp only: True not_True_eq_False simp_thms)+
      done
  qed
qed

lemma generateShaderLines_warnings:
  "snd (generateShaderLines ext cs p log) =
     log @
     (if vertexShaderText cs \<noteq> None
      then (case firstUnresolved (getAttributeNames ext (attributes p))
                  (attributeSet (usedVariablesVertex cs)) of
              Some a \<Rightarrow> [(''CustomShaderStage.incompatiblePrimitiveVS'',
                         ''Primitive is missing attribute '' @ a @
                         '', disabling custom vertex shader'')]
            | None \<Rightarrow> [])
      else []) @
     (if fragmentShaderText cs \<noteq> None
      then (case firstUnresolved (getAttributeNames ext (attributes p))
                  (attributeSet (usedVariablesFragment cs)) of
              Some a \<Rightarrow> [(''CustomShaderStage.incompatiblePrimitiveFS'',
                         ''Primitive is missing attribute '' @ a @
                         '', disabling custom fragment shader.'')]
            | None \<Rightarrow> [])
      else [])"
proof -
  let ?named = "getAttributeNames ext (attributes p)"
  have v: "snd (generateVertexShaderLines ext cs ?named vl l) =
             l @ (case firstUnresolved ?named (attributeSet (usedVariablesVertex cs)) of
                    Some a \<Rightarrow> [(''CustomShaderStage.incompatiblePrimitiveVS'',
                               ''Primitive is missing attribute '' @ a @
                               '', disabling custom vertex shader'')]
                  | None \<Rightarrow> [])" for vl l
  proof (cases "firstUnresolved ?named (attributeSet (usedVariablesVertex cs))")
    case None
    from find_None_all_inferable [OF None] obtain ds where
      "map inferAttributeDefaults
         (filter (\<lambda>n. n \<notin> fst ` set ?named) (attributeSet (usedVariablesVertex cs))) =
       map Some ds" ..
    from generateVertexShaderLines_ok [OF getAttributeNames_distinct this] None
    show ?thesis by simp
  next
    case (Some a)
    from generateVertexShaderLines_fail
           [OF getAttributeNames_distinct Some [unfolded firstUnresolved_def]] Some
    show ?thesis by simp
  qed
  have f: "snd (generateFragmentShaderLines ext cs ?named fl l) =
             l @ (case firstUnresolved ?named (attributeSet (usedVariablesFragment cs)) of
                    Some a \<Rightarrow> [(''CustomShaderStage.incompatiblePrimitiveFS'',
                               ''Primitive is missing attribute '' @ a @
                               '', disabling custom fragment shader.'')]
                  | None \<Rightarrow> [])" for fl l
  proof (cases "firstUnresolved ?named (attributeSet (usedVariablesFragment cs))")
    case None
    from find_None_all_inferable [OF None] obtain ds where
      "map inferAttributeDefaults
         (filter (\<lambda>n. n \<notin> fst ` set ?named) (attributeSet (usedVariablesFragment cs))) =
       map Some ds" ..
    from generateFragmentShaderLines_ok [OF getAttributeNames_distinct this] None
    show ?thesis by simp
  next
    case (Some a)
    from generateFragmentShaderLines_fail
           [OF getAttributeNames_distinct Some [unfolded firstUnresolved_def]] Some
    show ?thesis by simp
  qed
  show ?thesis
    by (simp add: generateShaderLines_eq Let_def v f)
qed

lemma firstUnresolved_Some_iff_ex:
  "(\<exists>a \<in> set used. a \<notin> fst ` set named \<and> inferAttributeDefaults a = None) \<longleftrightarrow>
   (\<exists>a. firstUnresolved named used = Some a)"
proof
  assume "\<exists>a \<in> set used. a \<notin> fst ` set named \<and> inferAttributeDefaults a = None"
  then have "firstUnresolved named used \<noteq> None"
    by (auto simp: firstUnresolved_def find_None_iff)
  then show "\<exists>a. firstUnresolved named used = Some a" by auto
next
  assume "\<exists>a. firstUnresolved named used = Some a"
  then show "\<exists>a \<in> set used. a \<notin> fst ` set named \<and> inferAttributeDefaults a = None"
    by (auto simp: firstUnresolved_def find_Some_iff)
qed

lemma disabled_lines_absent:
  "\<not> enabled (vertexLines (fst (generateShaderLines ext cs p log))) \<Longrightarrow>
   vertexLines (fst (generateShaderLines ext cs p log)) =
     \<lparr>enabled = False, attributeFields = None, fragmentInputFields = None,
      initializationLines = None\<rparr>"
  "\<not> enabled (fragmentLines (fst (generateShaderLines ext cs p log))) \<Longrightarrow>
   fragmentLines (fst (generateShaderLines ext cs p log)) =
     \<lparr>enabled = False, attributeFields = None, fragmentInputFields = None,
      initializationLines = None\<rparr>"
  by (auto simp: generateShaderLines_eq Let_def generateVertexShaderLines_def
        generateFragmentShaderLines_def split_beta split: sum.splits if_splits)

lemma filter_stage_warnings:
  assumes "k1 \<noteq> k2"
  shows "filter (\<lambda>w. fst w = k1)
           ((if c1 then (case x of Some a \<Rightarrow> [(k1, m1 a)] | None \<Rightarrow> []) else []) @
            (if c2 then (case y of Some a \<Rightarrow> [(k2, m2 a)] | None \<Rightarrow> []) else [])) =
         (if c1 then (case x of Some a \<Rightarrow> [(k1, m1 a)] | None \<Rightarrow> []) else [])"
    and "filter (\<lambda>w. fst w = k2)
           ((if c1 then (case x of Some a \<Rightarrow> [(k1, m1 a)] | None \<Rightarrow> []) else []) @
            (if c2 then (case y of Some a \<Rightarrow> [(k2, m2 a)] | None \<Rightarrow> []) else [])) =
         (if c2 then (case y of Some a \<Rightarrow> [(k2, m2 a)] | None \<Rightarrow> []) else [])"
  using assms by (cases c1; cases c2; cases x; cases y; simp)+

lemma count_key:
  "distinct (map fst xs) \<Longrightarrow>
   length (filter (\<lambda>q. fst q = n) xs) = (if n \<in> fst ` set xs then 1 else 0)"
  by (induction xs) (auto simp: image_iff)

lemma firstUnresolved_None_subset:
  "set used \<subseteq> fst ` set named \<Longrightarrow> firstUnresolved named used = None"
  by (auto simp: firstUnresolved_def find_None_iff)

lemma filter_missing_subset:
  "set used \<subseteq> fst ` set named \<Longrightarrow> filter (\<lambda>n. n \<notin> fst ` set named) used = []"
  by (auto simp: filter_empty_conv)

lemma isDigit_underscore: "\<not> isDigit CHR ''_''"
  by (simp add: isDigit_def)

lemma trimSetIndex_suffix:
  assumes "digits \<noteq> []" and "\<forall>c \<in> set digits. isDigit c"
  shows "trimSetIndex (base @ ''_'' @ digits) = base"
proof -
  have r: "rev (base @ ''_'' @ digits) = rev digits @ CHR ''_'' # rev base" by simp
  have "takeWhile isDigit (rev digits @ CHR ''_'' # rev base) =
        rev digits @ takeWhile isDigit (CHR ''_'' # rev base)"
    using assms(2) by (intro takeWhile_append2) auto
  then have t: "takeWhile isDigit (rev digits @ CHR ''_'' # rev base) = rev digits"
    by (simp add: isDigit_underscore)
  have "dropWhile isDigit (rev digits @ CHR ''_'' # rev base) =
        dropWhile isDigit (CHR ''_'' # rev base)"
    using assms(2) by (intro dropWhile_append2) auto
  then have d: "dropWhile isDigit (rev digits @ CHR ''_'' # rev base) = CHR ''_'' # rev base"
    by (simp add: isDigit_underscore)
  show ?thesis
    unfolding trimSetIndex_def Let_def r t d using assms(1) by simp
qed

lemma trimSetIndex_cases:
  "trimSetIndex s = s \<or>
   (\<exists>digits. digits \<noteq> [] \<and> (\<forall>c \<in> set digits. isDigit c) \<and>
              s = trimSetIndex s @ ''_'' @ digits)"
proof (cases "dropWhile isDigit (rev s)")
  case Nil
  show ?thesis unfolding trimSetIndex_def Let_def Nil by simp
next
  case (Cons c rest)
  show ?thesis
  proof (cases "takeWhile isDigit (rev s) \<noteq> [] \<and> c = CHR ''_''")
    case False
    have "trimSetIndex s = s"
      unfolding trimSetIndex_def Let_def Cons using False by auto
    then show ?thesis by simp
  next
    case True
    let ?ds = "takeWhile isDigit (rev s)"
    have t: "trimSetIndex s = rev rest"
      unfolding trimSetIndex_def Let_def Cons using True by simp
    have "rev s = ?ds @ dropWhile isDigit (rev s)" by simp
    then have "rev s = ?ds @ CHR ''_'' # rest" unfolding Cons using True by simp
    then have "rev (rev s) = rev (?ds @ CHR ''_'' # rest)" by (rule arg_cong)
    then have s: "s = rev rest @ ''_'' @ rev ?ds" by simp
    have a: "\<forall>c \<in> set (rev ?ds). isDigit c" by (auto dest: set_takeWhileD)
    from True have n: "rev ?ds \<noteq> []" by simp
    have "rev ?ds \<noteq> [] \<and> (\<forall>c \<in> set (rev ?ds). isDigit c) \<and>
          s = trimSetIndex s @ ''_'' @ rev ?ds"
      using a n s unfolding t by (intro conjI)
    then show ?thesis by (intro disjI2 exI [of _ "rev ?ds"])
  qed
qed

lemma inferAttributeDefaults_eq:
  "inferAttributeDefaults n =
     (case getProperty attributeTypeLUT (trimSetIndex n) of
        None \<Rightarrow> None
      | Some ty \<Rightarrow> Some \<lparr>attributeField = (ty, n),
                        value = getProperty attributeDefaultValueLUT (trimSetIndex n)\<rparr>)"
  by (simp add: inferAttributeDefaults_def Let_def)

lemma getProperty_None_iff:
  "getProperty table key = None \<longleftrightarrow> key \<notin> fst ` set table \<and> key \<notin> set objectPrototype"
proof (cases "map_of table key")
  case None
  then have "key \<notin> fst ` set table" by (simp add: map_of_eq_None_iff)
  with None show ?thesis by (simp add: getProperty_def)
next
  case (Some v)
  then have "(key, v) \<in> set table" by (rule map_of_SomeD)
  then have "key \<in> fst ` set table" by force
  with Some show ?thesis by (simp add: getProperty_def)
qed

lemma inferable_iff:
  "inferAttributeDefaults n \<noteq> None \<longleftrightarrow>
   trimSetIndex n \<in> {''positionMC'', ''normal'', ''tangent'', ''texCoord'', ''joints'', ''weights''} \<or>
   trimSetIndex n \<in> set objectPrototype"
proof -
  have "inferAttributeDefaults n \<noteq> None \<longleftrightarrow>
        getProperty attributeTypeLUT (trimSetIndex n) \<noteq> None"
    by (simp add: inferAttributeDefaults_eq split: option.splits)
  also have "\<dots> \<longleftrightarrow> trimSetIndex n \<in> fst ` set attributeTypeLUT \<or>
                       trimSetIndex n \<in> set objectPrototype"
    by (simp only: getProperty_None_iff de_Morgan_conj not_not)
  also have "fst ` set attributeTypeLUT =
             {''positionMC'', ''normal'', ''tangent'', ''texCoord'', ''joints'', ''weights''}"
    by (simp add: attributeTypeLUT_def)
  finally show ?thesis .
qed

lemma color_not_in_table:
  assumes "t @ rest = ''color_'' @ s"
  shows "getProperty attributeTypeLUT t = None"
proof -
  have "t \<noteq> k" if "take 3 k \<noteq> ''col''" "3 \<le> length k" for k
  proof
    assume "t = k"
    with that(2) have "take 3 (t @ rest) = take 3 k" by simp
    with assms have "take 3 k = ''col''" by simp
    with that(1) show False by simp
  qed
  then have "t \<noteq> ''positionMC''" "t \<noteq> ''normal''" "t \<noteq> ''tangent''"
    "t \<noteq> ''texCoord''" "t \<noteq> ''joints''" "t \<noteq> ''weights''"
    "t \<noteq> ''constructor''" "t \<noteq> ''hasOwnProperty''" "t \<noteq> ''isPrototypeOf''"
    "t \<noteq> ''propertyIsEnumerable''" "t \<noteq> ''toLocaleString''" "t \<noteq> ''toString''"
    "t \<noteq> ''valueOf''" "t \<noteq> ''__defineGetter__''" "t \<noteq> ''__defineSetter__''"
    "t \<noteq> ''__lookupGetter__''" "t \<noteq> ''__lookupSetter__''" "t \<noteq> ''__proto__''"
    by simp_all
  then show ?thesis by (simp add: getProperty_def attributeTypeLUT_def objectPrototype_def)
qed

lemma infer_normal:
  "inferAttributeDefaults ''normal'' =
     Some \<lparr>attributeField = (Str ''vec3'', ''normal''), value = Some (Str ''vec3(0.0, 0.0, 1.0)'')\<rparr>"
  by (simp add: inferAttributeDefaults_def trimSetIndex_def isDigit_def attributeTypeLUT_def
        attributeDefaultValueLUT_def getProperty_def)

lemma inferred_field_name:
  "inferAttributeDefaults n = Some d \<Longrightarrow> snd (attributeField d) = n"
  by (auto simp: inferAttributeDefaults_eq split: option.splits)

lemma defaults_zip:
  "map f xs = map Some ds \<Longrightarrow> x \<in> set xs \<Longrightarrow> f x = Some d \<Longrightarrow> (x, d) \<in> set (zip xs ds)"
proof (induction xs arbitrary: ds)
  case Nil
  then show ?case by simp
next
  case (Cons y ys)
  then obtain e es where ds: "ds = e # es" by (cases ds) auto
  with Cons show ?case by auto
qed

lemma defaults_origin:
  "map f xs = map Some ds \<Longrightarrow> d \<in> set ds \<Longrightarrow> \<exists>x \<in> set xs. f x = Some d"
proof (induction xs arbitrary: ds)
  case Nil
  then show ?case by simp
next
  case (Cons y ys)
  then obtain e es where ds: "ds = e # es" by (cases ds) auto
  with Cons show ?case by auto
qed

lemma color_not_inferable: "inferAttributeDefaults (''color_'' @ s) = None"
proof -
  let ?n = "''color_'' @ s"
  have "getProperty attributeTypeLUT (trimSetIndex ?n) = None"
  proof (rule disjE [OF trimSetIndex_cases [of ?n]])
    assume "trimSetIndex ?n = ?n"
    then have "trimSetIndex ?n @ [] = ?n" by (simp only: append_Nil2)
    then show ?thesis by (rule color_not_in_table)
  next
    assume "\<exists>digits. digits \<noteq> [] \<and> (\<forall>c \<in> set digits. isDigit c) \<and>
              ?n = trimSetIndex ?n @ ''_'' @ digits"
    then obtain digits where "?n = trimSetIndex ?n @ ''_'' @ digits"
      by (elim exE conjE)
    then have "trimSetIndex ?n @ (''_'' @ digits) = ?n" by (rule sym)
    then show ?thesis by (rule color_not_in_table)
  qed
  then show ?thesis
    by (simp only: inferAttributeDefaults_eq option.case)
qed

lemma all_resolved_firstUnresolved:
  "(\<forall>a \<in> set used. a \<in> fst ` set named \<or> inferAttributeDefaults a \<noteq> None) \<Longrightarrow>
   firstUnresolved named used = None"
  by (auto simp: firstUnresolved_def find_None_iff)

lemma normal_default_in_stage:
  assumes ds: "map inferAttributeDefaults (filter (\<lambda>n. n \<notin> fst ` set named) used) = map Some ds"
    and n: "''normal'' \<in> set used" "''normal'' \<notin> fst ` set named"
    and fl: "fieldList =
       map (\<lambda>(n, a). generateAttributeField ext n a) (filter (\<lambda>q. fst q \<in> set used) named) @
       map attributeField ds"
    and ll: "lineList = pre @
       map (\<lambda>(n, a). inp @ ''.attributes.'' @ n @ '' = attributes.'' @ n @ '';'')
           (filter (\<lambda>q. fst q \<in> set used) named) @
       map (\<lambda>(n, d). inp @ ''.attributes.'' @ n @ '' = '' @ toStr ext (value d) @ '';'')
           (zip (filter (\<lambda>n. n \<notin> fst ` set named) used) ds)"
  shows "(Str ''vec3'', ''normal'') \<in> set fieldList \<and>
         (\<forall>ty. (ty, ''normal'') \<in> set fieldList \<longrightarrow> ty = Str ''vec3'') \<and>
         inp @ ''.attributes.normal = vec3(0.0, 0.0, 1.0);'' \<in> set lineList"
proof -
  define N where "N = ''normal''"
  define T where "T = Str ''vec3''"
  define D where "D = \<lparr>attributeField = (T, N), value = Some (Str ''vec3(0.0, 0.0, 1.0)'')\<rparr>"
  define L where "L = inp @ ''.attributes.normal = vec3(0.0, 0.0, 1.0);''"
  define missing where "missing = filter (\<lambda>n. n \<notin> fst ` set named) used"
  define present where "present = filter (\<lambda>q. fst q \<in> set used) named"
  define copyField where "copyField = (\<lambda>(n, a). generateAttributeField ext n a)"
  define copyLine where
    "copyLine = (\<lambda>(n, a :: ('a, 'b) attribute). inp @ ''.attributes.'' @ n @ '' = attributes.'' @ n @ '';'')"
  define defaultLine where
    "defaultLine = (\<lambda>(n, d :: attributeDefaults).
       inp @ ''.attributes.'' @ n @ '' = '' @ toStr ext (value d) @ '';'')"
  have inf: "inferAttributeDefaults N = Some D"
    unfolding N_def D_def T_def by (rule infer_normal)
  have ds': "map inferAttributeDefaults missing = map Some ds"
    unfolding missing_def by (rule ds)
  have fl': "fieldList = map copyField present @ map attributeField ds"
    unfolding copyField_def present_def by (rule fl)
  have ll': "lineList = pre @ map copyLine present @ map defaultLine (zip missing ds)"
    unfolding copyLine_def defaultLine_def present_def missing_def by (rule ll)
  have nu: "N \<in> set used" and nn: "N \<notin> fst ` set named"
    unfolding N_def by (rule n)+
  from nu nn have m: "N \<in> set missing" by (simp add: missing_def)
  from defaults_zip [OF ds' m inf] have z: "(N, D) \<in> set (zip missing ds)" .
  then have d: "D \<in> set ds" by (rule set_zip_rightD)
  have fD: "attributeField D = (T, N)" by (simp add: D_def)
  have f1: "(T, N) \<in> set fieldList"
    using d fD unfolding fl' by force
  have f2: "ty = T" if "(ty, N) \<in> set fieldList" for ty
  proof -
    from that have "(ty, N) \<in> set (map copyField present) \<or> (ty, N) \<in> set (map attributeField ds)"
      unfolding fl' by simp
    then show ?thesis
    proof
      assume "(ty, N) \<in> set (map copyField present)"
      then obtain q where q: "q \<in> set present" "copyField q = (ty, N)" by auto
      from q(2) have "fst q = N"
        by (simp add: copyField_def generateAttributeField_def split_beta)
      with q(1) have "N \<in> fst ` set named" by (auto simp: present_def)
      with nn show ?thesis by simp
    next
      assume "(ty, N) \<in> set (map attributeField ds)"
      then obtain e where e: "e \<in> set ds" "attributeField e = (ty, N)" by auto
      from defaults_origin [OF ds' e(1)] obtain x where
        x: "inferAttributeDefaults x = Some e" by blast
      from inferred_field_name [OF x] e(2) have "x = N" by simp
      with x inf have "e = D" by simp
      with e(2) fD show ?thesis by simp
    qed
  qed
  have dl: "defaultLine (N, D) = L"
    by (simp add: defaultLine_def L_def N_def D_def toStr_def)
  have l: "L \<in> set lineList"
    using z dl unfolding ll' by force
  have "(T, N) \<in> set fieldList \<and> (\<forall>ty. (ty, N) \<in> set fieldList \<longrightarrow> ty = T) \<and> L \<in> set lineList"
    using f1 f2 l by blast
  then show ?thesis unfolding N_def T_def L_def .
qed

lemma vertex_normal_default:
  assumes t: "vertexShaderText cs \<noteq> None"
    and n: "''normal'' \<in> set (attributeSet (usedVariablesVertex cs))"
           "''normal'' \<notin> fst ` set (getAttributeNames ext (attributes p))"
    and r: "\<forall>a \<in> set (attributeSet (usedVariablesVertex cs)).
              a \<in> fst ` set (getAttributeNames ext (attributes p)) \<or>
              inferAttributeDefaults a \<noteq> None"
  shows "enabled (vertexLines (fst (generateShaderLines ext cs p log))) \<and>
     (\<exists>fieldList lineList.
        attributeFields (vertexLines (fst (generateShaderLines ext cs p log))) = Some fieldList \<and>
        initializationLines (vertexLines (fst (generateShaderLines ext cs p log))) =
          Some lineList \<and>
        (Str ''vec3'', ''normal'') \<in> set fieldList \<and>
        (\<forall>ty. (ty, ''normal'') \<in> set fieldList \<longrightarrow> ty = Str ''vec3'') \<and>
        ''vsInput.attributes.normal = vec3(0.0, 0.0, 1.0);'' \<in> set lineList)"
proof -
  let ?named = "getAttributeNames ext (attributes p)"
  let ?used = "attributeSet (usedVariablesVertex cs)"
  let ?vl = "vertexLines (fst (generateShaderLines ext cs p log))"
  have en: "enabled ?vl"
    using t all_resolved_firstUnresolved [OF r] by (simp add: vertex_enabled_iff)
  from vertexLines_enabled_eq [OF en] obtain ds where
    ds: "map inferAttributeDefaults (filter (\<lambda>n. n \<notin> fst ` set ?named) ?used) = map Some ds"
    and vl: "?vl =
            \<lparr>enabled = True,
             attributeFields = Some
               (map (\<lambda>(n, a). generateAttributeField ext n a)
                    (filter (\<lambda>q. fst q \<in> set ?used) ?named) @
                map attributeField ds),
             fragmentInputFields = None,
             initializationLines = Some
               (map (\<lambda>(n, a). ''vsInput.attributes.'' @ n @ '' = attributes.'' @ n @ '';'')
                    (filter (\<lambda>q. fst q \<in> set ?used) ?named) @
                map (\<lambda>(n, d). ''vsInput.attributes.'' @ n @ '' = '' @ toStr ext (value d) @ '';'')
                    (zip (filter (\<lambda>n. n \<notin> fst ` set ?named) ?used) ds))\<rparr>"
    by (elim exE conjE)
  define fieldList where "fieldList =
       map (\<lambda>(n, a). generateAttributeField ext n a) (filter (\<lambda>q. fst q \<in> set ?used) ?named) @
       map attributeField ds"
  define lineList where "lineList = [] @
       map (\<lambda>(n, a). ''vsInput'' @ ''.attributes.'' @ n @ '' = attributes.'' @ n @ '';'')
           (filter (\<lambda>q. fst q \<in> set ?used) ?named) @
       map (\<lambda>(n, d). ''vsInput'' @ ''.attributes.'' @ n @ '' = '' @ toStr ext (value d) @ '';'')
           (zip (filter (\<lambda>n. n \<notin> fst ` set ?named) ?used) ds)"
  have a: "attributeFields ?vl = Some fieldList"
    by (simp add: vl fieldList_def)
  have b: "initializationLines ?vl = Some lineList"
    by (simp add: vl lineList_def)
  from normal_default_in_stage [OF ds n fieldList_def lineList_def]
  have c: "(Str ''vec3'', ''normal'') \<in> set fieldList \<and>
         (\<forall>ty. (ty, ''normal'') \<in> set fieldList \<longrightarrow> ty = Str ''vec3'') \<and>
         ''vsInput.attributes.normal = vec3(0.0, 0.0, 1.0);'' \<in> set lineList"
    by simp
  from en a b c show ?thesis by blast
qed

lemma fragment_normal_default:
  assumes t: "fragmentShaderText cs \<noteq> None"
    and n: "''normal'' \<in> set (attributeSet (usedVariablesFragment cs))"
           "''normal'' \<notin> fst ` set (getAttributeNames ext (attributes p))"
    and r: "\<forall>a \<in> set (attributeSet (usedVariablesFragment cs)).
              a \<in> fst ` set (getAttributeNames ext (attributes p)) \<or>
              inferAttributeDefaults a \<noteq> None"
  shows "enabled (fragmentLines (fst (generateShaderLines ext cs p log))) \<and>
     (\<exists>fieldList lineList.
        attributeFields (fragmentLines (fst (generateShaderLines ext cs p log))) = Some fieldList \<and>
        initializationLines (fragmentLines (fst (generateShaderLines ext cs p log))) =
          Some lineList \<and>
        (Str ''vec3'', ''normal'') \<in> set fieldList \<and>
        (\<forall>ty. (ty, ''normal'') \<in> set fieldList \<longrightarrow> ty = Str ''vec3'') \<and>
        ''fsInput.attributes.normal = vec3(0.0, 0.0, 1.0);'' \<in> set lineList)"
proof -
  let ?named = "getAttributeNames ext (attributes p)"
  let ?used = "attributeSet (usedVariablesFragment cs)"
  let ?fl = "fragmentLines (fst (generateShaderLines ext cs p log))"
  have en: "enabled ?fl"
    using t all_resolved_firstUnresolved [OF r] by (simp add: fragment_enabled_iff)
  from fragmentLines_enabled_eq [OF en] obtain ds where
    ds: "map inferAttributeDefaults (filter (\<lambda>n. n \<notin> fst ` set ?named) ?used) = map Some ds"
    and fl: "?fl =
            \<lparr>enabled = True,
             attributeFields = Some
               (map (\<lambda>(n, a). generateAttributeField ext n a)
                    (filter (\<lambda>q. fst q \<in> set ?used) ?named) @
                map attributeField ds),
             fragmentInputFields = Some (fst (generatePositionBuiltins cs)),
             initializationLines = Some
               (snd (generatePositionBuiltins cs) @
                map (\<lambda>(n, a). ''fsInput.attributes.'' @ n @ '' = attributes.'' @ n @ '';'')
                    (filter (\<lambda>q. fst q \<in> set ?used) ?named) @
                map (\<lambda>(n, d). ''fsInput.attributes.'' @ n @ '' = '' @ toStr ext (value d) @ '';'')
                    (zip (filter (\<lambda>n. n \<notin> fst ` set ?named) ?used) ds))\<rparr>"
    by (elim exE conjE)
  define fieldList where "fieldList =
       map (\<lambda>(n, a). generateAttributeField ext n a) (filter (\<lambda>q. fst q \<in> set ?used) ?named) @
       map attributeField ds"
  define lineList where "lineList = snd (generatePositionBuiltins cs) @
       map (\<lambda>(n, a). ''fsInput'' @ ''.attributes.'' @ n @ '' = attributes.'' @ n @ '';'')
           (filter (\<lambda>q. fst q \<in> set ?used) ?named) @
       map (\<lambda>(n, d). ''fsInput'' @ ''.attributes.'' @ n @ '' = '' @ toStr ext (value d) @ '';'')
           (zip (filter (\<lambda>n. n \<notin> fst ` set ?named) ?used) ds)"
  have a: "attributeFields ?fl = Some fieldList"
    by (simp add: fl fieldList_def)
  have b: "initializationLines ?fl = Some lineList"
    by (simp add: fl lineList_def)
  from normal_default_in_stage [OF ds n fieldList_def lineList_def]
  have c: "(Str ''vec3'', ''normal'') \<in> set fieldList \<and>
         (\<forall>ty. (ty, ''normal'') \<in> set fieldList \<longrightarrow> ty = Str ''vec3'') \<and>
         ''fsInput.attributes.normal = vec3(0.0, 0.0, 1.0);'' \<in> set lineList"
    by simp
  from en a b c show ?thesis by blast
qed

lemma vertex_normal_emitted:
  assumes gen: "generateShaderLines ext (model_customShader rr) p log = (gc, log')"
    and h: "vertexShaderText (model_customShader rr) \<noteq> None \<and>
      ''normal'' \<in> set (attributeSet (usedVariablesVertex (model_customShader rr))) \<and>
      ''normal'' \<notin> fst ` set (getAttributeNames ext (attributes p)) \<and>
      (\<forall>a \<in> set (attributeSet (usedVariablesVertex (model_customShader rr))).
         a \<in> fst ` set (getAttributeNames ext (attributes p)) \<or>
         inferAttributeDefaults a \<noteq> None)"
  shows "enabled (vertexLines gc) \<and>
        (\<exists>rr' calls.
           process ext rr p fr log = Inr (rr', log') \<and>
           shaderBuilder rr' = shaderBuilder rr @ calls \<and>
           (Str ''vec3'', ''normal'') \<in> set (structFields ''AttributesVS'' calls) \<and>
           (\<forall>ty. (ty, ''normal'') \<in> set (structFields ''AttributesVS'' calls) \<longrightarrow> ty = Str ''vec3'') \<and>
           ''vsInput.attributes.normal = vec3(0.0, 0.0, 1.0);''
             \<in> set (functionLines ''initializeInputStructVS'' calls))"
proof -
  define N where "N = ''normal''"
  define T where "T = Str ''vec3''"
  define L where "L = ''vsInput.attributes.normal = vec3(0.0, 0.0, 1.0);''"
  define S where "S = ''AttributesVS''"
  define I where "I = ''initializeInputStructVS''"
  let ?cs = "model_customShader rr"
  from gen have gc: "gc = fst (generateShaderLines ext ?cs p log)" by simp
  note h1 = h [THEN conjunct1]
  note h2 = h [THEN conjunct2, THEN conjunct1]
  note h3 = h [THEN conjunct2, THEN conjunct2, THEN conjunct1]
  note h4 = h [THEN conjunct2, THEN conjunct2, THEN conjunct2]
  have "enabled (vertexLines gc) \<and>
     (\<exists>fieldList lineList.
        attributeFields (vertexLines gc) = Some fieldList \<and>
        initializationLines (vertexLines gc) = Some lineList \<and>
        (T, N) \<in> set fieldList \<and>
        (\<forall>ty. (ty, N) \<in> set fieldList \<longrightarrow> ty = T) \<and>
        L \<in> set lineList)"
    unfolding gc T_def N_def L_def by (rule vertex_normal_default [OF h1 h2 h3 h4])
  then obtain fieldList lineList where
    en: "enabled (vertexLines gc)"
    and a: "attributeFields (vertexLines gc) = Some fieldList"
    and b: "initializationLines (vertexLines gc) = Some lineList"
    and c: "(T, N) \<in> set fieldList" "\<forall>ty. (ty, N) \<in> set fieldList \<longrightarrow> ty = T"
      "L \<in> set lineList"
    by blast
  have "\<exists>rr' calls.
     process ext rr p fr log = Inr (rr', log') \<and>
     shaderBuilder rr' = shaderBuilder rr @ calls \<and>
     (enabled (vertexLines gc) \<longrightarrow>
        attributeFields (vertexLines gc) = Some (structFields S calls) \<and>
        initializationLines (vertexLines gc) = Some (functionLines I calls))"
    using process_effects [OF gen, of fr] unfolding S_def I_def by blast
  then obtain r calls where
    p: "process ext rr p fr log = Inr (r, log')"
    and sb: "shaderBuilder r = shaderBuilder rr @ calls"
    and ev: "attributeFields (vertexLines gc) = Some (structFields S calls)"
      "initializationLines (vertexLines gc) = Some (functionLines I calls)"
    using en by blast
  from ev a b have "structFields S calls = fieldList" "functionLines I calls = lineList"
    by simp_all
  with c p sb have "\<exists>rr' calls.
           process ext rr p fr log = Inr (rr', log') \<and>
           shaderBuilder rr' = shaderBuilder rr @ calls \<and>
           (T, N) \<in> set (structFields S calls) \<and>
           (\<forall>ty. (ty, N) \<in> set (structFields S calls) \<longrightarrow> ty = T) \<and>
           L \<in> set (functionLines I calls)"
    by blast
  with en have "enabled (vertexLines gc) \<and> (\<exists>rr' calls.
           process ext rr p fr log = Inr (rr', log') \<and>
           shaderBuilder rr' = shaderBuilder rr @ calls \<and>
           (T, N) \<in> set (structFields S calls) \<and>
           (\<forall>ty. (ty, N) \<in> set (structFields S calls) \<longrightarrow> ty = T) \<and>
           L \<in> set (functionLines I calls))"
    by (rule conjI)
  then show ?thesis unfolding T_def N_def L_def S_def I_def .
qed

lemma fragment_normal_emitted:
  assumes gen: "generateShaderLines ext (model_customShader rr) p log = (gc, log')"
    and h: "fragmentShaderText (model_customShader rr) \<noteq> None \<and>
      ''normal'' \<in> set (attributeSet (usedVariablesFragment (model_customShader rr))) \<and>
      ''normal'' \<notin> fst ` set (getAttributeNames ext (attributes p)) \<and>
      (\<forall>a \<in> set (attributeSet (usedVariablesFragment (model_customShader rr))).
         a \<in> fst ` set (getAttributeNames ext (attributes p)) \<or>
         inferAttributeDefaults a \<noteq> None)"
  shows "enabled (fragmentLines gc) \<and>
        (\<exists>rr' calls.
           process ext rr p fr log = Inr (rr', log') \<and>
           shaderBuilder rr' = shaderBuilder rr @ calls \<and>
           (Str ''vec3'', ''normal'') \<in> set (structFields ''AttributesFS'' calls) \<and>
           (\<forall>ty. (ty, ''normal'') \<in> set (structFields ''AttributesFS'' calls) \<longrightarrow> ty = Str ''vec3'') \<and>
           ''fsInput.attributes.normal = vec3(0.0, 0.0, 1.0);''
             \<in> set (functionLines ''initializeInputStructFS'' calls))"
proof -
  define N where "N = ''normal''"
  define T where "T = Str ''vec3''"
  define L where "L = ''fsInput.attributes.normal = vec3(0.0, 0.0, 1.0);''"
  define S where "S = ''AttributesFS''"
  define I where "I = ''initializeInputStructFS''"
  let ?cs = "model_customShader rr"
  from gen have gc: "gc = fst (generateShaderLines ext ?cs p log)" by simp
  note h1 = h [THEN conjunct1]
  note h2 = h [THEN conjunct2, THEN conjunct1]
  note h3 = h [THEN conjunct2, THEN conjunct2, THEN conjunct1]
  note h4 = h [THEN conjunct2, THEN conjunct2, THEN conjunct2]
  have "enabled (fragmentLines gc) \<and>
     (\<exists>fieldList lineList.
        attributeFields (fragmentLines gc) = Some fieldList \<and>
        initializationLines (fragmentLines gc) = Some lineList \<and>
        (T, N) \<in> set fieldList \<and>
        (\<forall>ty. (ty, N) \<in> set fieldList \<longrightarrow> ty = T) \<and>
        L \<in> set lineList)"
    unfolding gc T_def N_def L_def by (rule fragment_normal_default [OF h1 h2 h3 h4])
  then obtain fieldList lineList where
    en: "enabled (fragmentLines gc)"
    and a: "attributeFields (fragmentLines gc) = Some fieldList"
    and b: "initializationLines (fragmentLines gc) = Some lineList"
    and c: "(T, N) \<in> set fieldList" "\<forall>ty. (ty, N) \<in> set fieldList \<longrightarrow> ty = T"
      "L \<in> set lineList"
    by blast
  have "\<exists>rr' calls.
     process ext rr p fr log = Inr (rr', log') \<and>
     shaderBuilder rr' = shaderBuilder rr @ calls \<and>
     (enabled (fragmentLines gc) \<longrightarrow>
        attributeFields (fragmentLines gc) = Some (structFields S calls) \<and>
        initializationLines (fragmentLines gc) = Some (functionLines I calls))"
    using process_effects [OF gen, of fr] unfolding S_def I_def by blast
  then obtain r calls where
    p: "process ext rr p fr log = Inr (r, log')"
    and sb: "shaderBuilder r = shaderBuilder rr @ calls"
    and ev: "attributeFields (fragmentLines gc) = Some (structFields S calls)"
      "initializationLines (fragmentLines gc) = Some (functionLines I calls)"
    using en by blast
  from ev a b have "structFields S calls = fieldList" "functionLines I calls = lineList"
    by simp_all
  with c p sb have "\<exists>rr' calls.
           process ext rr p fr log = Inr (rr', log') \<and>
           shaderBuilder rr' = shaderBuilder rr @ calls \<and>
           (T, N) \<in> set (structFields S calls) \<and>
           (\<forall>ty. (ty, N) \<in> set (structFields S calls) \<longrightarrow> ty = T) \<and>
           L \<in> set (functionLines I calls)"
    by blast
  with en have "enabled (fragmentLines gc) \<and> (\<exists>rr' calls.
           process ext rr p fr log = Inr (rr', log') \<and>
           shaderBuilder rr' = shaderBuilder rr @ calls \<and>
           (T, N) \<in> set (structFields S calls) \<and>
           (\<forall>ty. (ty, N) \<in> set (structFields S calls) \<longrightarrow> ty = T) \<and>
           L \<in> set (functionLines I calls))"
    by (rule conjI)
  then show ?thesis unfolding T_def N_def L_def S_def I_def .
qed

section \<open>The claims\<close>

text \<open>
  C9. For a primitive attribute map (an object, so its keys are distinct) and a shader
  attribute set, \<open>partitionAttributes\<close> returns as \<open>addToShader\<close> the entries of the
  primitive map whose name is in the shader set, so that each common name is mapped to the
  primitive's attribute, and as \<open>missingAttributes\<close> the names of the shader set that the
  primitive map lacks, in the order of the shader set. A primitive attribute that the
  shader does not use is in neither output. The function reads and writes nothing but
  its arguments and its result.
\<close>

theorem partitionAttributes_intersection_and_missing:
  assumes "distinct (map fst primitiveAttributes)"
  shows "addToShader (partitionAttributes primitiveAttributes shaderAttributeSet) =
           filter (\<lambda>(n, a). n \<in> set shaderAttributeSet) primitiveAttributes \<and>
         map_of (addToShader (partitionAttributes primitiveAttributes shaderAttributeSet)) =
           (\<lambda>n. if n \<in> set shaderAttributeSet then map_of primitiveAttributes n else None) \<and>
         missingAttributes (partitionAttributes primitiveAttributes shaderAttributeSet) =
           filter (\<lambda>n. n \<notin> fst ` set primitiveAttributes) shaderAttributeSet \<and>
         (\<forall>n. n \<in> fst ` set primitiveAttributes \<and> n \<notin> set shaderAttributeSet \<longrightarrow>
              n \<notin> fst ` set (addToShader (partitionAttributes primitiveAttributes shaderAttributeSet)) \<and>
              n \<notin> set (missingAttributes (partitionAttributes primitiveAttributes shaderAttributeSet)))"
proof -
  have m: "map_of (filter (\<lambda>q. fst q \<in> set shaderAttributeSet) primitiveAttributes) =
           (\<lambda>n. if n \<in> set shaderAttributeSet then map_of primitiveAttributes n else None)"
    by (induction primitiveAttributes) (auto simp: fun_eq_iff)
  have f: "(\<lambda>(n, a). n \<in> set shaderAttributeSet) = (\<lambda>q. fst q \<in> set shaderAttributeSet)"
    by (simp add: fun_eq_iff split_beta)
  show ?thesis
    using m by (auto simp: partitionAttributes_eq [OF assms] f)
qed

theorem partitionAttributes_witness:
  "distinct (map fst [(''positionMC'', 1::nat), (''normal'', 2), (''texCoord_0'', 3)]) \<and>
   partitionAttributes [(''positionMC'', 1::nat), (''normal'', 2), (''texCoord_0'', 3)]
                       [''color_0'', ''normal'', ''temperature'', ''positionMC''] =
     \<lparr>addToShader = [(''positionMC'', 1), (''normal'', 2)],
      missingAttributes = [''color_0'', ''temperature'']\<rparr>"
  using partitionAttributes_intersection_and_missing
          [of "[(''positionMC'', 1::nat), (''normal'', 2), (''texCoord_0'', 3)]"
              "[''color_0'', ''normal'', ''temperature'', ''positionMC'']"]
  by (simp add: partitionAttributes_def)

text \<open>
  C8. Shader-line generation is deterministic and reads no state written by an earlier
  run: for a fixed primitive and custom shader, running \<open>generateShaderLines\<close> a second
  time, on the warning log left by the first run, gives the same generated code (the same
  fields, the same initialization lines, the same flags) and issues the same warnings
  again; and the generated code is the same whatever the log holds.
\<close>
theorem generateShaderLines_deterministic:
  "(let (generatedCode1, log1) = generateShaderLines ext customShader primitive log0;
        (generatedCode2, log2) = generateShaderLines ext customShader primitive log1
    in generatedCode1 = generatedCode2 \<and>
       (\<exists>warnings. log1 = log0 @ warnings \<and> log2 = log1 @ warnings)) \<and>
   fst (generateShaderLines ext customShader primitive logA) =
   fst (generateShaderLines ext customShader primitive logB)"
proof -
  have a: "fst (generateShaderLines ext customShader primitive l) =
           fst (generateShaderLines ext customShader primitive [])" for l
    using generateShaderLines_log [of ext customShader primitive l] by simp
  have b: "snd (generateShaderLines ext customShader primitive l) =
           l @ snd (generateShaderLines ext customShader primitive [])" for l
    using generateShaderLines_log [of ext customShader primitive l] by simp
  have "fst (generateShaderLines ext customShader primitive logA) =
        fst (generateShaderLines ext customShader primitive logB)"
    using a [of logA] a [of logB] by simp
  moreover have "fst (generateShaderLines ext customShader primitive log0) =
        fst (generateShaderLines ext customShader primitive
               (snd (generateShaderLines ext customShader primitive log0)))"
    using a [of log0] a [of "snd (generateShaderLines ext customShader primitive log0)"] by simp
  moreover have "\<exists>warnings.
        snd (generateShaderLines ext customShader primitive log0) = log0 @ warnings \<and>
        snd (generateShaderLines ext customShader primitive
               (snd (generateShaderLines ext customShader primitive log0))) =
        snd (generateShaderLines ext customShader primitive log0) @ warnings"
    using b [of log0] b [of "snd (generateShaderLines ext customShader primitive log0)"]
    by blast
  ultimately show ?thesis
    by (simp add: split_beta)
qed

theorem generateShaderLines_deterministic_witness:
  "fst (generateShaderLines exampleExternals exampleShader positionOnlyPrimitive
          [(''CustomShaderStage.incompatiblePrimitiveFS'', ''earlier'')]) =
   fst (generateShaderLines exampleExternals exampleShader positionOnlyPrimitive [])"
  using generateShaderLines_deterministic
          [of exampleExternals exampleShader positionOnlyPrimitive "[]"
              "[(''CustomShaderStage.incompatiblePrimitiveFS'', ''earlier'')]" "[]"]
  by simp

text \<open>
  C2. \<open>customShaderEnabled\<close> is true if and only if generation succeeded for the vertex
  stage or for the fragment stage, where generation for a stage succeeds (its lines end
  \<open>enabled\<close>) exactly when the stage has source text and every attribute it uses is in
  the catalog or has a default. When both source texts are absent, \<open>customShaderEnabled\<close>
  is false and \<open>process\<close> returns the render resources as they were: no call is made on
  the shader builder, and no warning is issued.
\<close>
theorem customShaderEnabled_iff_a_stage_succeeded:
  assumes "generateShaderLines ext (model_customShader renderResources) primitive log =
             (generatedCode, log')"
  shows "(customShaderEnabled generatedCode \<longleftrightarrow>
            enabled (vertexLines generatedCode) \<or> enabled (fragmentLines generatedCode)) \<and>
         (enabled (vertexLines generatedCode) \<longleftrightarrow>
            vertexShaderText (model_customShader renderResources) \<noteq> None \<and>
            firstUnresolved (getAttributeNames ext (attributes primitive))
              (attributeSet (usedVariablesVertex (model_customShader renderResources))) = None) \<and>
         (enabled (fragmentLines generatedCode) \<longleftrightarrow>
            fragmentShaderText (model_customShader renderResources) \<noteq> None \<and>
            firstUnresolved (getAttributeNames ext (attributes primitive))
              (attributeSet (usedVariablesFragment (model_customShader renderResources))) = None) \<and>
         (vertexShaderText (model_customShader renderResources) = None \<and>
          fragmentShaderText (model_customShader renderResources) = None \<longrightarrow>
            \<not> customShaderEnabled generatedCode \<and>
            process ext renderResources primitive frameState log = Inr (renderResources, log))"
proof -
  let ?cs = "model_customShader renderResources"
  from assms have gc: "generatedCode = fst (generateShaderLines ext ?cs primitive log)"
    by simp
  have flags: "customShaderEnabled generatedCode \<longleftrightarrow>
            enabled (vertexLines generatedCode) \<or> enabled (fragmentLines generatedCode)"
    unfolding gc using generated_flags [of ext ?cs primitive log] by simp
  have v: "enabled (vertexLines generatedCode) \<longleftrightarrow>
            vertexShaderText ?cs \<noteq> None \<and>
            firstUnresolved (getAttributeNames ext (attributes primitive))
              (attributeSet (usedVariablesVertex ?cs)) = None"
    unfolding gc by (rule vertex_enabled_iff)
  have f: "enabled (fragmentLines generatedCode) \<longleftrightarrow>
            fragmentShaderText ?cs \<noteq> None \<and>
            firstUnresolved (getAttributeNames ext (attributes primitive))
              (attributeSet (usedVariablesFragment ?cs)) = None"
    unfolding gc by (rule fragment_enabled_iff)
  have none: "\<not> customShaderEnabled generatedCode \<and>
            process ext renderResources primitive frameState log = Inr (renderResources, log)"
    if t: "vertexShaderText ?cs = None \<and> fragmentShaderText ?cs = None"
  proof -
    from t flags v f have d: "\<not> customShaderEnabled generatedCode" by simp
    from t have "snd (generateShaderLines ext ?cs primitive log) = log"
      by (simp add: generateShaderLines_eq Let_def)
    with process_disabled [of ext renderResources primitive log frameState] d
    show ?thesis by (simp add: gc)
  qed
  from flags v f none show ?thesis by blast
qed

theorem customShaderEnabled_witness:
  "vertexShaderText
     (model_customShader
        (exampleResources (exampleShader\<lparr>vertexShaderText := None, fragmentShaderText := None\<rparr>))) =
     None \<and>
   fragmentShaderText
     (model_customShader
        (exampleResources (exampleShader\<lparr>vertexShaderText := None, fragmentShaderText := None\<rparr>))) =
     None \<and>
   process exampleExternals
     (exampleResources (exampleShader\<lparr>vertexShaderText := None, fragmentShaderText := None\<rparr>))
     examplePrimitive () [] =
   Inr (exampleResources (exampleShader\<lparr>vertexShaderText := None, fragmentShaderText := None\<rparr>),
        [])"
proof -
  have g: "generateShaderLines exampleExternals
             (model_customShader
                (exampleResources
                   (exampleShader\<lparr>vertexShaderText := None, fragmentShaderText := None\<rparr>)))
             examplePrimitive [] =
           (fst (generateShaderLines exampleExternals
             (model_customShader
                (exampleResources
                   (exampleShader\<lparr>vertexShaderText := None, fragmentShaderText := None\<rparr>)))
             examplePrimitive []),
            snd (generateShaderLines exampleExternals
             (model_customShader
                (exampleResources
                   (exampleShader\<lparr>vertexShaderText := None, fragmentShaderText := None\<rparr>)))
             examplePrimitive []))"
    by simp
  have t: "vertexShaderText
     (model_customShader
        (exampleResources (exampleShader\<lparr>vertexShaderText := None, fragmentShaderText := None\<rparr>))) =
     None \<and>
   fragmentShaderText
     (model_customShader
        (exampleResources (exampleShader\<lparr>vertexShaderText := None, fragmentShaderText := None\<rparr>))) =
     None"
    by (simp add: exampleResources_def)
  from customShaderEnabled_iff_a_stage_succeeded [OF g, of "()"] t show ?thesis
    by blast
qed

text \<open>
  C3. \<open>shouldComputePositionWC\<close> is true exactly when \<open>positionWC\<close> is in the fragment
  stage's position set and the fragment stage ends enabled. \<open>process\<close> adds the define
  \<open>COMPUTE_POSITION_WC\<close> to the vertex stage when the flag is true, and only then.
\<close>
theorem shouldComputePositionWC_iff:
  assumes "generateShaderLines ext (model_customShader renderResources) primitive log =
             (generatedCode, log')"
  shows "(shouldComputePositionWC generatedCode \<longleftrightarrow>
            ''positionWC'' \<in> set (positionSet (usedVariablesFragment
                                                 (model_customShader renderResources))) \<and>
            enabled (fragmentLines generatedCode)) \<and>
         (\<exists>renderResources' calls.
            process ext renderResources primitive frameState log = Inr (renderResources', log') \<and>
            shaderBuilder renderResources' = shaderBuilder renderResources @ calls \<and>
            (AddDefine ''COMPUTE_POSITION_WC'' None VERTEX \<in> set calls \<longleftrightarrow>
               shouldComputePositionWC generatedCode))"
proof -
  let ?cs = "model_customShader renderResources"
  from assms have gc: "generatedCode = fst (generateShaderLines ext ?cs primitive log)"
    by simp
  have flag: "shouldComputePositionWC generatedCode \<longleftrightarrow>
            ''positionWC'' \<in> set (positionSet (usedVariablesFragment ?cs)) \<and>
            enabled (fragmentLines generatedCode)"
    unfolding gc using generated_flags [of ext ?cs primitive log] by simp
  from process_effects [OF assms, of frameState] obtain r calls where
    "process ext renderResources primitive frameState log = Inr (r, log')"
    "shaderBuilder r = shaderBuilder renderResources @ calls"
    "AddDefine ''COMPUTE_POSITION_WC'' None VERTEX \<in> set calls \<longleftrightarrow>
       shouldComputePositionWC generatedCode"
    by blast
  with flag show ?thesis by blast
qed

theorem shouldComputePositionWC_witness:
  "shouldComputePositionWC
     (fst (generateShaderLines exampleExternals
             (model_customShader (exampleResources exampleShader)) positionOnlyPrimitive [])) \<and>
   ''positionWC'' \<in> set (positionSet (usedVariablesFragment
                                        (model_customShader (exampleResources exampleShader)))) \<and>
   enabled (fragmentLines
     (fst (generateShaderLines exampleExternals
             (model_customShader (exampleResources exampleShader)) positionOnlyPrimitive []))) \<and>
   (case process exampleExternals (exampleResources exampleShader) positionOnlyPrimitive () [] of
      Inr (r, l) \<Rightarrow> AddDefine ''COMPUTE_POSITION_WC'' None VERTEX \<in> set (shaderBuilder r)
    | Inl e \<Rightarrow> False)"
proof -
  have g: "generateShaderLines exampleExternals
             (model_customShader (exampleResources exampleShader)) positionOnlyPrimitive [] =
           (fst (generateShaderLines exampleExternals
                   (model_customShader (exampleResources exampleShader)) positionOnlyPrimitive []),
            snd (generateShaderLines exampleExternals
                   (model_customShader (exampleResources exampleShader)) positionOnlyPrimitive []))"
    by simp
  have s: "shouldComputePositionWC
     (fst (generateShaderLines exampleExternals
             (model_customShader (exampleResources exampleShader)) positionOnlyPrimitive []))"
    by (simp add: example_defs model_defs)
  have e: "shaderBuilder (exampleResources exampleShader) = []"
    by (simp add: exampleResources_def)
  from shouldComputePositionWC_iff [OF g, of "()"] s e show ?thesis
    by auto
qed

text \<open>
  C4 (as amended). When custom shading is enabled, \<open>process\<close> overwrites both alpha
  options. For a translucent custom shader the pass becomes \<open>TRANSLUCENT\<close> and the alpha
  mode \<open>BLEND\<close>. Otherwise the pass is reset to \<open>undefined\<close>, which leaves the choice
  of the pass to the pipeline's default, and the alpha mode is set to \<open>OPAQUE\<close>, whatever
  both were before.
\<close>
theorem process_sets_alpha_options:
  assumes "generateShaderLines ext (model_customShader renderResources) primitive log =
             (generatedCode, log')"
    and "customShaderEnabled generatedCode"
  shows "\<exists>renderResources'.
           process ext renderResources primitive frameState log = Inr (renderResources', log') \<and>
           (isTranslucent (model_customShader renderResources) \<longrightarrow>
              alphaOptions_pass renderResources' = Some TRANSLUCENT \<and>
              alphaOptions_alphaMode renderResources' = Some BLEND) \<and>
           (\<not> isTranslucent (model_customShader renderResources) \<longrightarrow>
              alphaOptions_pass renderResources' = None \<and>
              alphaOptions_alphaMode renderResources' = Some OPAQUE)"
proof -
  from process_effects [OF assms(1), of frameState] assms(2) obtain r where
    "process ext renderResources primitive frameState log = Inr (r, log')"
    "alphaOptions_pass r =
       (if isTranslucent (model_customShader renderResources) then Some TRANSLUCENT else None)"
    "alphaOptions_alphaMode r =
       (if isTranslucent (model_customShader renderResources) then Some BLEND else Some OPAQUE)"
    by blast
  then show ?thesis by (intro exI [of _ r]) simp
qed

theorem process_sets_alpha_options_witness:
  "customShaderEnabled
     (fst (generateShaderLines exampleExternals
             (model_customShader (exampleResources (exampleShader\<lparr>isTranslucent := True\<rparr>)))
             positionOnlyPrimitive [])) \<and>
   isTranslucent (model_customShader (exampleResources (exampleShader\<lparr>isTranslucent := True\<rparr>))) \<and>
   (case process exampleExternals (exampleResources (exampleShader\<lparr>isTranslucent := True\<rparr>))
           positionOnlyPrimitive () [] of
      Inr (r, l) \<Rightarrow> alphaOptions_pass r = Some TRANSLUCENT \<and> alphaOptions_alphaMode r = Some BLEND
    | Inl e \<Rightarrow> False)"
proof -
  let ?rr = "exampleResources (exampleShader\<lparr>isTranslucent := True\<rparr>)"
  have g: "generateShaderLines exampleExternals (model_customShader ?rr) positionOnlyPrimitive [] =
           (fst (generateShaderLines exampleExternals (model_customShader ?rr)
                   positionOnlyPrimitive []),
            snd (generateShaderLines exampleExternals (model_customShader ?rr)
                   positionOnlyPrimitive []))"
    by simp
  have en: "customShaderEnabled
     (fst (generateShaderLines exampleExternals (model_customShader ?rr) positionOnlyPrimitive []))"
    by (simp add: example_defs model_defs)
  have t: "isTranslucent (model_customShader ?rr)"
    by (simp add: example_defs)
  from process_sets_alpha_options [OF g en, of "()"] en t show ?thesis
    by auto
qed

theorem alpha_not_left_counterexample:
  "customShaderEnabled
     (fst (generateShaderLines exampleExternals
             (model_customShader (exampleResources exampleShader)) positionOnlyPrimitive [])) \<and>
   \<not> isTranslucent (model_customShader (exampleResources exampleShader)) \<and>
   alphaOptions_pass (exampleResources exampleShader) = Some TRANSLUCENT \<and>
   alphaOptions_alphaMode (exampleResources exampleShader) = Some BLEND \<and>
   (case process exampleExternals (exampleResources exampleShader) positionOnlyPrimitive () [] of
      Inr (r, l) \<Rightarrow> alphaOptions_pass r = None \<and> alphaOptions_alphaMode r = Some OPAQUE
    | Inl e \<Rightarrow> False)"
  by (simp add: example_defs model_defs)

text \<open>
  C5. When custom shading is enabled, \<open>process\<close> replaces the uniform map of the render
  resources by the merge of that map with the custom shader's uniform map. A key of the
  custom shader's map has the custom shader's value in the result, in particular when the
  key is in both maps; every other key keeps what the render resources had.
\<close>
theorem process_merges_uniformMap:
  assumes "generateShaderLines ext (model_customShader renderResources) primitive log =
             (generatedCode, log')"
    and "customShaderEnabled generatedCode"
  shows "\<exists>renderResources'.
           process ext renderResources primitive frameState log = Inr (renderResources', log') \<and>
           (\<forall>k \<in> dom (renderResources_uniformMap renderResources) \<inter>
                  dom (uniformMap (model_customShader renderResources)).
              renderResources_uniformMap renderResources' k =
              uniformMap (model_customShader renderResources) k) \<and>
           (\<forall>k \<in> dom (uniformMap (model_customShader renderResources)).
              renderResources_uniformMap renderResources' k =
              uniformMap (model_customShader renderResources) k) \<and>
           (\<forall>k. k \<notin> dom (uniformMap (model_customShader renderResources)) \<longrightarrow>
              renderResources_uniformMap renderResources' k =
              renderResources_uniformMap renderResources k)"
proof -
  from process_effects [OF assms(1), of frameState] assms(2) obtain r where
    p: "process ext renderResources primitive frameState log = Inr (r, log')"
    and u: "renderResources_uniformMap r =
       combine (renderResources_uniformMap renderResources)
               (uniformMap (model_customShader renderResources))"
    by blast
  have "\<forall>k \<in> dom (uniformMap (model_customShader renderResources)).
          renderResources_uniformMap r k = uniformMap (model_customShader renderResources) k"
    by (auto simp: u combine_def map_add_def)
  moreover have "\<forall>k. k \<notin> dom (uniformMap (model_customShader renderResources)) \<longrightarrow>
          renderResources_uniformMap r k = renderResources_uniformMap renderResources k"
    by (auto simp: u combine_def map_add_def split: option.splits)
  ultimately show ?thesis using p by (intro exI [of _ r]) auto
qed

theorem process_merges_uniformMap_witness:
  "customShaderEnabled
     (fst (generateShaderLines exampleExternals
             (model_customShader (exampleResources exampleShader)) positionOnlyPrimitive [])) \<and>
   renderResources_uniformMap (exampleResources exampleShader) ''u_time'' = Some 0 \<and>
   uniformMap (model_customShader (exampleResources exampleShader)) ''u_time'' = Some 1 \<and>
   (case process exampleExternals (exampleResources exampleShader) positionOnlyPrimitive () [] of
      Inr (r, l) \<Rightarrow> renderResources_uniformMap r ''u_time'' = Some 1 \<and>
                    renderResources_uniformMap r ''u_scale'' = Some 5
    | Inl e \<Rightarrow> False)"
proof -
  let ?rr = "exampleResources exampleShader"
  have g: "generateShaderLines exampleExternals (model_customShader ?rr) positionOnlyPrimitive [] =
           (fst (generateShaderLines exampleExternals (model_customShader ?rr)
                   positionOnlyPrimitive []),
            snd (generateShaderLines exampleExternals (model_customShader ?rr)
                   positionOnlyPrimitive []))"
    by simp
  have en: "customShaderEnabled
     (fst (generateShaderLines exampleExternals (model_customShader ?rr) positionOnlyPrimitive []))"
    by (simp add: example_defs model_defs)
  have m: "renderResources_uniformMap ?rr ''u_time'' = Some 0"
    "renderResources_uniformMap ?rr ''u_scale'' = Some 5"
    "uniformMap (model_customShader ?rr) ''u_time'' = Some 1"
    "uniformMap (model_customShader ?rr) ''u_scale'' = None"
    by (simp_all add: example_defs)
  from process_merges_uniformMap [OF g en, of "()"] obtain r where
    p: "process exampleExternals ?rr positionOnlyPrimitive () [] =
          Inr (r, snd (generateShaderLines exampleExternals (model_customShader ?rr)
                         positionOnlyPrimitive []))"
    and a: "\<forall>k \<in> dom (uniformMap (model_customShader ?rr)).
              renderResources_uniformMap r k = uniformMap (model_customShader ?rr) k"
    and b: "\<forall>k. k \<notin> dom (uniformMap (model_customShader ?rr)) \<longrightarrow>
              renderResources_uniformMap r k = renderResources_uniformMap ?rr k"
    by blast
  from a m have "renderResources_uniformMap r ''u_time'' = Some 1" by (auto simp: dom_def)
  moreover from b m have "renderResources_uniformMap r ''u_scale'' = Some 5"
    by (auto simp: dom_def)
  ultimately show ?thesis using p en m by simp
qed

text \<open>
  C10. When \<open>customShaderEnabled\<close> is true, the defines that announce a stage follow the
  presence of that stage's source text, not the success of its generation:
  \<open>HAS_CUSTOM_VERTEX_SHADER\<close> is added to the vertex stage exactly when the vertex source
  text is defined, and \<open>HAS_CUSTOM_FRAGMENT_SHADER\<close> exactly when the fragment source text
  is defined, together with the define of the shader mode. This holds also when the
  generation of that stage failed, in which case none of the stage's structs, fields,
  function lines or source lines is added.
\<close>
theorem stage_defines_follow_source_text:
  assumes "generateShaderLines ext (model_customShader renderResources) primitive log =
             (generatedCode, log')"
    and "customShaderEnabled generatedCode"
  shows "\<exists>renderResources' calls.
           process ext renderResources primitive frameState log = Inr (renderResources', log') \<and>
           shaderBuilder renderResources' = shaderBuilder renderResources @ calls \<and>
           (AddDefine ''HAS_CUSTOM_VERTEX_SHADER'' None VERTEX \<in> set calls \<longleftrightarrow>
              vertexShaderText (model_customShader renderResources) \<noteq> None) \<and>
           (AddDefine ''HAS_CUSTOM_FRAGMENT_SHADER'' None FRAGMENT \<in> set calls \<longleftrightarrow>
              fragmentShaderText (model_customShader renderResources) \<noteq> None) \<and>
           (fragmentShaderText (model_customShader renderResources) \<noteq> None \<longrightarrow>
              AddDefine (getDefineName ext (mode (model_customShader renderResources))) None FRAGMENT
                \<in> set calls) \<and>
           (\<not> enabled (vertexLines generatedCode) \<longrightarrow> filter isVertexStageCall calls = []) \<and>
           (\<not> enabled (fragmentLines generatedCode) \<longrightarrow> filter isFragmentStageCall calls = [])"
proof -
  from process_effects [OF assms(1), of frameState] assms(2) obtain r calls where
    "process ext renderResources primitive frameState log = Inr (r, log')"
    "shaderBuilder r = shaderBuilder renderResources @ calls"
    "AddDefine ''HAS_CUSTOM_VERTEX_SHADER'' None VERTEX \<in> set calls \<longleftrightarrow>
       vertexShaderText (model_customShader renderResources) \<noteq> None"
    "AddDefine ''HAS_CUSTOM_FRAGMENT_SHADER'' None FRAGMENT \<in> set calls \<longleftrightarrow>
       fragmentShaderText (model_customShader renderResources) \<noteq> None"
    "fragmentShaderText (model_customShader renderResources) \<noteq> None \<longrightarrow>
       AddDefine (getDefineName ext (mode (model_customShader renderResources))) None FRAGMENT
         \<in> set calls"
    "\<not> enabled (vertexLines generatedCode) \<longrightarrow> filter isVertexStageCall calls = []"
    "\<not> enabled (fragmentLines generatedCode) \<longrightarrow> filter isFragmentStageCall calls = []"
    by blast
  then show ?thesis by (intro exI [of _ r] exI [of _ calls]) simp
qed

theorem stage_defines_witness:
  "customShaderEnabled
     (fst (generateShaderLines exampleExternals
        (model_customShader
           (exampleResources (exampleShader\<lparr>usedVariablesVertex := \<lparr>attributeSet = [''color_0'']\<rparr>\<rparr>)))
        positionOnlyPrimitive [])) \<and>
   \<not> enabled (vertexLines
     (fst (generateShaderLines exampleExternals
        (model_customShader
           (exampleResources (exampleShader\<lparr>usedVariablesVertex := \<lparr>attributeSet = [''color_0'']\<rparr>\<rparr>)))
        positionOnlyPrimitive []))) \<and>
   vertexShaderText
     (model_customShader
        (exampleResources (exampleShader\<lparr>usedVariablesVertex := \<lparr>attributeSet = [''color_0'']\<rparr>\<rparr>)))
     \<noteq> None \<and>
   (case process exampleExternals
           (exampleResources (exampleShader\<lparr>usedVariablesVertex := \<lparr>attributeSet = [''color_0'']\<rparr>\<rparr>))
           positionOnlyPrimitive () [] of
      Inr (r, l) \<Rightarrow> AddDefine ''HAS_CUSTOM_VERTEX_SHADER'' None VERTEX \<in> set (shaderBuilder r) \<and>
                    filter isVertexStageCall (shaderBuilder r) = []
    | Inl e \<Rightarrow> False)"
proof -
  let ?rr = "exampleResources (exampleShader\<lparr>usedVariablesVertex := \<lparr>attributeSet = [''color_0'']\<rparr>\<rparr>)"
  let ?gc = "fst (generateShaderLines exampleExternals (model_customShader ?rr)
                    positionOnlyPrimitive [])"
  have g: "generateShaderLines exampleExternals (model_customShader ?rr) positionOnlyPrimitive [] =
           (?gc, snd (generateShaderLines exampleExternals (model_customShader ?rr)
                        positionOnlyPrimitive []))"
    by simp
  have en: "customShaderEnabled ?gc" and nv: "\<not> enabled (vertexLines ?gc)"
    by (simp_all add: example_defs model_defs)
  have t: "vertexShaderText (model_customShader ?rr) \<noteq> None"
    and e: "shaderBuilder ?rr = []"
    by (simp_all add: example_defs)
  from stage_defines_follow_source_text [OF g en, of "()"] en nv t e show ?thesis
    by auto
qed

text \<open>
  C1 (as amended). If the attribute set of a stage contains an attribute that the catalog
  of the primitive lacks and for which \<open>inferAttributeDefaults\<close> returns nothing (by
  \<open>inferable_iff\<close>: its name, without a trailing set index, is neither a key of the type
  table nor the name of a member that the table inherits), then the lines of that
  stage end with \<open>enabled\<close> false and nothing else recorded, and \<open>process\<close> makes no
  struct, struct field, function, function line or source line call for that stage. If
  moreover the stage has source text, generation issues exactly one one-time warning
  with the identifier of that stage, and it names the first such attribute in the order
  of the set; a stage without source text is skipped, and no warning is issued for it.
\<close>
theorem unresolved_attribute_disables_stage:
  assumes "generateShaderLines ext (model_customShader renderResources) primitive log =
             (generatedCode, log')"
  shows "\<exists>renderResources' calls warnings.
     process ext renderResources primitive frameState log = Inr (renderResources', log') \<and>
     shaderBuilder renderResources' = shaderBuilder renderResources @ calls \<and>
     log' = log @ warnings \<and>
     ((\<exists>a \<in> set (attributeSet (usedVariablesVertex (model_customShader renderResources))).
          a \<notin> fst ` set (getAttributeNames ext (attributes primitive)) \<and>
          inferAttributeDefaults a = None) \<longrightarrow>
        vertexLines generatedCode =
          \<lparr>enabled = False, attributeFields = None, fragmentInputFields = None,
           initializationLines = None\<rparr> \<and>
        filter isVertexStageCall calls = [] \<and>
        (vertexShaderText (model_customShader renderResources) \<noteq> None \<longrightarrow>
           (\<exists>a. firstUnresolved (getAttributeNames ext (attributes primitive))
                   (attributeSet (usedVariablesVertex (model_customShader renderResources))) =
                 Some a \<and>
                filter (\<lambda>w. fst w = ''CustomShaderStage.incompatiblePrimitiveVS'') warnings =
                  [(''CustomShaderStage.incompatiblePrimitiveVS'',
                    ''Primitive is missing attribute '' @ a @
                    '', disabling custom vertex shader'')])) \<and>
        (vertexShaderText (model_customShader renderResources) = None \<longrightarrow>
           filter (\<lambda>w. fst w = ''CustomShaderStage.incompatiblePrimitiveVS'') warnings = [])) \<and>
     ((\<exists>a \<in> set (attributeSet (usedVariablesFragment (model_customShader renderResources))).
          a \<notin> fst ` set (getAttributeNames ext (attributes primitive)) \<and>
          inferAttributeDefaults a = None) \<longrightarrow>
        fragmentLines generatedCode =
          \<lparr>enabled = False, attributeFields = None, fragmentInputFields = None,
           initializationLines = None\<rparr> \<and>
        filter isFragmentStageCall calls = [] \<and>
        (fragmentShaderText (model_customShader renderResources) \<noteq> None \<longrightarrow>
           (\<exists>a. firstUnresolved (getAttributeNames ext (attributes primitive))
                   (attributeSet (usedVariablesFragment (model_customShader renderResources))) =
                 Some a \<and>
                filter (\<lambda>w. fst w = ''CustomShaderStage.incompatiblePrimitiveFS'') warnings =
                  [(''CustomShaderStage.incompatiblePrimitiveFS'',
                    ''Primitive is missing attribute '' @ a @
                    '', disabling custom fragment shader.'')])) \<and>
        (fragmentShaderText (model_customShader renderResources) = None \<longrightarrow>
           filter (\<lambda>w. fst w = ''CustomShaderStage.incompatiblePrimitiveFS'') warnings = []))"
proof -
  let ?cs = "model_customShader renderResources"
  let ?named = "getAttributeNames ext (attributes primitive)"
  let ?uv = "attributeSet (usedVariablesVertex ?cs)"
  let ?uf = "attributeSet (usedVariablesFragment ?cs)"
  from assms have gc: "generatedCode = fst (generateShaderLines ext ?cs primitive log)"
    and log': "log' = snd (generateShaderLines ext ?cs primitive log)"
    by simp_all
  define warnings where "warnings =
     (if vertexShaderText ?cs \<noteq> None
      then (case firstUnresolved ?named ?uv of
              Some a \<Rightarrow> [(''CustomShaderStage.incompatiblePrimitiveVS'',
                         ''Primitive is missing attribute '' @ a @
                         '', disabling custom vertex shader'')]
            | None \<Rightarrow> [])
      else []) @
     (if fragmentShaderText ?cs \<noteq> None
      then (case firstUnresolved ?named ?uf of
              Some a \<Rightarrow> [(''CustomShaderStage.incompatiblePrimitiveFS'',
                         ''Primitive is missing attribute '' @ a @
                         '', disabling custom fragment shader.'')]
            | None \<Rightarrow> [])
      else [])"
  have w: "log' = log @ warnings"
    unfolding log' warnings_def by (rule generateShaderLines_warnings)
  from process_effects [OF assms, of frameState] obtain r calls where
    p: "process ext renderResources primitive frameState log = Inr (r, log')"
    and sb: "shaderBuilder r = shaderBuilder renderResources @ calls"
    and nv: "\<not> enabled (vertexLines generatedCode) \<longrightarrow> filter isVertexStageCall calls = []"
    and nf: "\<not> enabled (fragmentLines generatedCode) \<longrightarrow> filter isFragmentStageCall calls = []"
    by blast
  have V: "vertexLines generatedCode =
          \<lparr>enabled = False, attributeFields = None, fragmentInputFields = None,
           initializationLines = None\<rparr> \<and>
        filter isVertexStageCall calls = [] \<and>
        (vertexShaderText ?cs \<noteq> None \<longrightarrow>
           (\<exists>a. firstUnresolved ?named ?uv = Some a \<and>
                filter (\<lambda>w. fst w = ''CustomShaderStage.incompatiblePrimitiveVS'') warnings =
                  [(''CustomShaderStage.incompatiblePrimitiveVS'',
                    ''Primitive is missing attribute '' @ a @
                    '', disabling custom vertex shader'')])) \<and>
        (vertexShaderText ?cs = None \<longrightarrow>
           filter (\<lambda>w. fst w = ''CustomShaderStage.incompatiblePrimitiveVS'') warnings = [])"
    if "\<exists>a \<in> set ?uv. a \<notin> fst ` set ?named \<and> inferAttributeDefaults a = None"
  proof -
    from that obtain a where a: "firstUnresolved ?named ?uv = Some a"
      by (auto simp: firstUnresolved_Some_iff_ex)
    then have d: "\<not> enabled (vertexLines generatedCode)"
      unfolding gc by (simp add: vertex_enabled_iff)
    have "vertexLines generatedCode =
          \<lparr>enabled = False, attributeFields = None, fragmentInputFields = None,
           initializationLines = None\<rparr>"
      using d disabled_lines_absent(1) [of ext ?cs primitive log] by (simp add: gc)
    moreover from d nv have "filter isVertexStageCall calls = []" by simp
    moreover have "filter (\<lambda>w. fst w = ''CustomShaderStage.incompatiblePrimitiveVS'') warnings =
                  [(''CustomShaderStage.incompatiblePrimitiveVS'',
                    ''Primitive is missing attribute '' @ a @
                    '', disabling custom vertex shader'')]"
      if "vertexShaderText ?cs \<noteq> None"
      unfolding warnings_def
      by (subst filter_stage_warnings(1)) (simp_all add: that a)
    moreover have "filter (\<lambda>w. fst w = ''CustomShaderStage.incompatiblePrimitiveVS'') warnings = []"
      if "vertexShaderText ?cs = None"
      unfolding warnings_def
      by (subst filter_stage_warnings(1)) (simp_all add: that)
    ultimately show ?thesis using a by simp
  qed
  have F: "fragmentLines generatedCode =
          \<lparr>enabled = False, attributeFields = None, fragmentInputFields = None,
           initializationLines = None\<rparr> \<and>
        filter isFragmentStageCall calls = [] \<and>
        (fragmentShaderText ?cs \<noteq> None \<longrightarrow>
           (\<exists>a. firstUnresolved ?named ?uf = Some a \<and>
                filter (\<lambda>w. fst w = ''CustomShaderStage.incompatiblePrimitiveFS'') warnings =
                  [(''CustomShaderStage.incompatiblePrimitiveFS'',
                    ''Primitive is missing attribute '' @ a @
                    '', disabling custom fragment shader.'')])) \<and>
        (fragmentShaderText ?cs = None \<longrightarrow>
           filter (\<lambda>w. fst w = ''CustomShaderStage.incompatiblePrimitiveFS'') warnings = [])"
    if "\<exists>a \<in> set ?uf. a \<notin> fst ` set ?named \<and> inferAttributeDefaults a = None"
  proof -
    from that obtain a where a: "firstUnresolved ?named ?uf = Some a"
      by (auto simp: firstUnresolved_Some_iff_ex)
    then have d: "\<not> enabled (fragmentLines generatedCode)"
      unfolding gc by (simp add: fragment_enabled_iff)
    have "fragmentLines generatedCode =
          \<lparr>enabled = False, attributeFields = None, fragmentInputFields = None,
           initializationLines = None\<rparr>"
      using d disabled_lines_absent(2) [of ext ?cs primitive log] by (simp add: gc)
    moreover from d nf have "filter isFragmentStageCall calls = []" by simp
    moreover have "filter (\<lambda>w. fst w = ''CustomShaderStage.incompatiblePrimitiveFS'') warnings =
                  [(''CustomShaderStage.incompatiblePrimitiveFS'',
                    ''Primitive is missing attribute '' @ a @
                    '', disabling custom fragment shader.'')]"
      if "fragmentShaderText ?cs \<noteq> None"
      unfolding warnings_def
      by (subst filter_stage_warnings(2)) (simp_all add: that a)
    moreover have "filter (\<lambda>w. fst w = ''CustomShaderStage.incompatiblePrimitiveFS'') warnings = []"
      if "fragmentShaderText ?cs = None"
      unfolding warnings_def
      by (subst filter_stage_warnings(2)) (simp_all add: that)
    ultimately show ?thesis using a by simp
  qed
  show ?thesis
    apply (rule exI [of _ r], rule exI [of _ calls], rule exI [of _ warnings])
    using p sb w V F
    apply (intro conjI impI)
    apply (assumption | blast)+
    done
qed

theorem unresolved_attribute_witness:
  "''temperature'' \<in> set (attributeSet (usedVariablesVertex (model_customShader
     (exampleResources (exampleShader
        \<lparr>usedVariablesVertex := \<lparr>attributeSet = [''positionMC'', ''temperature'']\<rparr>,
         usedVariablesFragment := \<lparr>attributeSet = [''normal'', ''color_0''],
                                   positionSet = []\<rparr>\<rparr>))))) \<and>
   ''temperature'' \<notin> fst ` set (getAttributeNames exampleExternals (attributes examplePrimitive)) \<and>
   inferAttributeDefaults ''temperature'' = None \<and>
   ''color_0'' \<in> set (attributeSet (usedVariablesFragment (model_customShader
     (exampleResources (exampleShader
        \<lparr>usedVariablesVertex := \<lparr>attributeSet = [''positionMC'', ''temperature'']\<rparr>,
         usedVariablesFragment := \<lparr>attributeSet = [''normal'', ''color_0''],
                                   positionSet = []\<rparr>\<rparr>))))) \<and>
   ''color_0'' \<notin> fst ` set (getAttributeNames exampleExternals (attributes examplePrimitive)) \<and>
   inferAttributeDefaults ''color_0'' = None \<and>
   vertexLines (fst (generateShaderLines exampleExternals (model_customShader
     (exampleResources (exampleShader
        \<lparr>usedVariablesVertex := \<lparr>attributeSet = [''positionMC'', ''temperature'']\<rparr>,
         usedVariablesFragment := \<lparr>attributeSet = [''normal'', ''color_0''],
                                   positionSet = []\<rparr>\<rparr>))) examplePrimitive [])) =
     \<lparr>enabled = False, attributeFields = None, fragmentInputFields = None,
      initializationLines = None\<rparr> \<and>
   fragmentLines (fst (generateShaderLines exampleExternals (model_customShader
     (exampleResources (exampleShader
        \<lparr>usedVariablesVertex := \<lparr>attributeSet = [''positionMC'', ''temperature'']\<rparr>,
         usedVariablesFragment := \<lparr>attributeSet = [''normal'', ''color_0''],
                                   positionSet = []\<rparr>\<rparr>))) examplePrimitive [])) =
     \<lparr>enabled = False, attributeFields = None, fragmentInputFields = None,
      initializationLines = None\<rparr> \<and>
   process exampleExternals
     (exampleResources (exampleShader
        \<lparr>usedVariablesVertex := \<lparr>attributeSet = [''positionMC'', ''temperature'']\<rparr>,
         usedVariablesFragment := \<lparr>attributeSet = [''normal'', ''color_0''],
                                   positionSet = []\<rparr>\<rparr>))
     examplePrimitive () [] =
   Inr (exampleResources (exampleShader
          \<lparr>usedVariablesVertex := \<lparr>attributeSet = [''positionMC'', ''temperature'']\<rparr>,
           usedVariablesFragment := \<lparr>attributeSet = [''normal'', ''color_0''],
                                     positionSet = []\<rparr>\<rparr>),
        [(''CustomShaderStage.incompatiblePrimitiveVS'',
          ''Primitive is missing attribute temperature, disabling custom vertex shader''),
         (''CustomShaderStage.incompatiblePrimitiveFS'',
          ''Primitive is missing attribute color_0, disabling custom fragment shader.'')])"
proof -
  let ?rr = "exampleResources (exampleShader
        \<lparr>usedVariablesVertex := \<lparr>attributeSet = [''positionMC'', ''temperature'']\<rparr>,
         usedVariablesFragment := \<lparr>attributeSet = [''normal'', ''color_0''],
                                   positionSet = []\<rparr>\<rparr>)"
  let ?gen = "generateShaderLines exampleExternals (model_customShader ?rr) examplePrimitive []"
  have g: "?gen = (fst ?gen, snd ?gen)" by simp
  have v: "''temperature'' \<in> set (attributeSet (usedVariablesVertex (model_customShader ?rr)))"
    "''temperature'' \<notin> fst ` set (getAttributeNames exampleExternals (attributes examplePrimitive))"
    "inferAttributeDefaults ''temperature'' = None"
    by (simp_all add: example_defs model_defs)
  have f: "''color_0'' \<in> set (attributeSet (usedVariablesFragment (model_customShader ?rr)))"
    "''color_0'' \<notin> fst ` set (getAttributeNames exampleExternals (attributes examplePrimitive))"
    "inferAttributeDefaults ''color_0'' = None"
    by (simp_all add: example_defs model_defs)
  from v have hv: "\<exists>a \<in> set (attributeSet (usedVariablesVertex (model_customShader ?rr))).
          a \<notin> fst ` set (getAttributeNames exampleExternals (attributes examplePrimitive)) \<and>
          inferAttributeDefaults a = None" by blast
  from f have hf: "\<exists>a \<in> set (attributeSet (usedVariablesFragment (model_customShader ?rr))).
          a \<notin> fst ` set (getAttributeNames exampleExternals (attributes examplePrimitive)) \<and>
          inferAttributeDefaults a = None" by blast
  from unresolved_attribute_disables_stage [OF g, of "()"] hv hf
  have l: "vertexLines (fst ?gen) =
          \<lparr>enabled = False, attributeFields = None, fragmentInputFields = None,
           initializationLines = None\<rparr>"
    "fragmentLines (fst ?gen) =
          \<lparr>enabled = False, attributeFields = None, fragmentInputFields = None,
           initializationLines = None\<rparr>"
    by blast+
  have p: "process exampleExternals ?rr examplePrimitive () [] =
     Inr (?rr,
        [(''CustomShaderStage.incompatiblePrimitiveVS'',
          ''Primitive is missing attribute temperature, disabling custom vertex shader''),
         (''CustomShaderStage.incompatiblePrimitiveFS'',
          ''Primitive is missing attribute color_0, disabling custom fragment shader.'')])"
    by (simp add: example_defs model_defs Let_def)
  from v f l p show ?thesis by (intro conjI)
qed

theorem warning_counterexample:
  "vertexShaderText
     (exampleShader\<lparr>vertexShaderText := None,
                    usedVariablesVertex := \<lparr>attributeSet = [''color_0'']\<rparr>\<rparr>) = None \<and>
   ''color_0'' \<in> set (attributeSet (usedVariablesVertex
     (exampleShader\<lparr>vertexShaderText := None,
                    usedVariablesVertex := \<lparr>attributeSet = [''color_0'']\<rparr>\<rparr>))) \<and>
   ''color_0'' \<notin> fst ` set (getAttributeNames exampleExternals (attributes positionOnlyPrimitive)) \<and>
   inferAttributeDefaults ''color_0'' = None \<and>
   snd (generateShaderLines exampleExternals
          (exampleShader\<lparr>vertexShaderText := None,
                         usedVariablesVertex := \<lparr>attributeSet = [''color_0'']\<rparr>\<rparr>)
          positionOnlyPrimitive []) = [] \<and>
   ''temperature'' \<in> set (attributeSet (usedVariablesVertex
     (exampleShader\<lparr>usedVariablesVertex := \<lparr>attributeSet = [''color_0'', ''temperature'']\<rparr>\<rparr>))) \<and>
   ''temperature'' \<notin> fst ` set (getAttributeNames exampleExternals (attributes positionOnlyPrimitive)) \<and>
   inferAttributeDefaults ''temperature'' = None \<and>
   snd (generateShaderLines exampleExternals
          (exampleShader\<lparr>usedVariablesVertex := \<lparr>attributeSet = [''color_0'', ''temperature'']\<rparr>\<rparr>)
          positionOnlyPrimitive []) =
     [(''CustomShaderStage.incompatiblePrimitiveVS'',
       ''Primitive is missing attribute color_0, disabling custom vertex shader'')]"
  by (simp add: example_defs model_defs)

text \<open>
  C6 (as amended). For a primitive and a custom shader with vertex source text whose
  vertex attribute set is contained in the names of the catalog, vertex generation
  succeeds; the fields of the vertex \<open>Attributes\<close> struct are those of the used
  attributes, in catalog order, exactly one for each used attribute, each with the GLSL
  type of the attribute of that name; and the initialization lines are, in the same
  order, \<open>vsInput.attributes.<name> = attributes.<name>;\<close>. These fields and lines are
  what \<open>process\<close> adds to the struct \<open>AttributesVS\<close> and to the function
  \<open>initializeInputStructVS\<close>.
\<close>
theorem present_attributes_are_copied:
  assumes "generateShaderLines ext (model_customShader renderResources) primitive log =
             (generatedCode, log')"
    and "vertexShaderText (model_customShader renderResources) \<noteq> None"
    and "set (attributeSet (usedVariablesVertex (model_customShader renderResources)))
           \<subseteq> fst ` set (getAttributeNames ext (attributes primitive))"
  shows "enabled (vertexLines generatedCode) \<and>
     (\<exists>fieldList lineList.
        attributeFields (vertexLines generatedCode) = Some fieldList \<and>
        initializationLines (vertexLines generatedCode) = Some lineList \<and>
        fieldList =
          map (\<lambda>(n, a). (Str (getGlslType ext (type a)), n))
            (filter (\<lambda>(n, a). n \<in> set (attributeSet (usedVariablesVertex
                                                     (model_customShader renderResources))))
               (getAttributeNames ext (attributes primitive))) \<and>
        lineList =
          map (\<lambda>(n, a). ''vsInput.attributes.'' @ n @ '' = attributes.'' @ n @ '';'')
            (filter (\<lambda>(n, a). n \<in> set (attributeSet (usedVariablesVertex
                                                     (model_customShader renderResources))))
               (getAttributeNames ext (attributes primitive))) \<and>
        snd ` set fieldList =
          set (attributeSet (usedVariablesVertex (model_customShader renderResources))) \<and>
        (\<forall>n \<in> set (attributeSet (usedVariablesVertex (model_customShader renderResources))).
           length (filter (\<lambda>f. snd f = n) fieldList) = 1) \<and>
        (\<exists>renderResources' calls.
           process ext renderResources primitive frameState log = Inr (renderResources', log') \<and>
           shaderBuilder renderResources' = shaderBuilder renderResources @ calls \<and>
           structFields ''AttributesVS'' calls = fieldList \<and>
           functionLines ''initializeInputStructVS'' calls = lineList))"
proof -
  let ?cs = "model_customShader renderResources"
  let ?named = "getAttributeNames ext (attributes primitive)"
  let ?used = "attributeSet (usedVariablesVertex ?cs)"
  let ?present = "filter (\<lambda>q. fst q \<in> set ?used) ?named"
  let ?fields = "map (\<lambda>(n, a). (Str (getGlslType ext (type a)), n)) ?present"
  let ?lines = "map (\<lambda>(n, a). ''vsInput.attributes.'' @ n @ '' = attributes.'' @ n @ '';'') ?present"
  from assms(1) have gc: "generatedCode = fst (generateShaderLines ext ?cs primitive log)"
    by simp
  have same: "(\<lambda>(n, a). n \<in> set ?used) = (\<lambda>q. fst q \<in> set ?used)"
    by (simp add: fun_eq_iff split_beta)
  have en: "enabled (vertexLines generatedCode)"
    unfolding gc using assms(2) firstUnresolved_None_subset [OF assms(3)]
    by (simp add: vertex_enabled_iff)
  from vertexLines_enabled_eq [OF en [unfolded gc]] filter_missing_subset [OF assms(3)]
  have vl: "vertexLines generatedCode =
      \<lparr>enabled = True, attributeFields = Some ?fields, fragmentInputFields = None,
       initializationLines = Some ?lines\<rparr>"
    unfolding gc by (auto simp: generateAttributeField_def)
  have names: "snd ` set ?fields = set ?used"
    using assms(3) by (auto simp: image_iff split_beta) force
  have one: "length (filter (\<lambda>f. snd f = n) ?fields) = 1" if "n \<in> set ?used" for n
  proof -
    have "filter (\<lambda>f. snd f = n) ?fields =
          map (\<lambda>(n, a). (Str (getGlslType ext (type a)), n)) (filter (\<lambda>q. fst q = n) ?present)"
      by (simp add: filter_map o_def split_beta)
    moreover have "filter (\<lambda>q. fst q = n) ?present = filter (\<lambda>q. fst q = n) ?named"
      using that by (auto intro: filter_cong)
    moreover have "length (filter (\<lambda>q. fst q = n) ?named) = 1"
      using count_key [OF getAttributeNames_distinct, of n ext "attributes primitive"]
            that assms(3) by auto
    ultimately show ?thesis by simp
  qed
  from process_effects [OF assms(1), of frameState] en obtain r calls where
    p: "process ext renderResources primitive frameState log = Inr (r, log')"
    and sb: "shaderBuilder r = shaderBuilder renderResources @ calls"
    and sf: "attributeFields (vertexLines generatedCode) = Some (structFields ''AttributesVS'' calls)"
    and fl: "initializationLines (vertexLines generatedCode) =
          Some (functionLines ''initializeInputStructVS'' calls)"
    by blast
  from sf fl vl have c: "structFields ''AttributesVS'' calls = ?fields"
    "functionLines ''initializeInputStructVS'' calls = ?lines" by simp_all
  show ?thesis
    apply (rule conjI [OF en])
    apply (rule exI [of _ ?fields], rule exI [of _ ?lines])
    apply (simp only: same)
    apply (intro conjI)
          apply (simp add: vl)
         apply (simp add: vl)
        apply (rule refl)
       apply (rule refl)
      apply (rule names)
     apply (rule ballI, erule one)
    apply (rule exI [of _ r], rule exI [of _ calls])
    apply (intro conjI p sb c)
    done
qed

theorem present_attributes_witness:
  "vertexShaderText (model_customShader (exampleResources exampleShader)) \<noteq> None \<and>
   set (attributeSet (usedVariablesVertex (model_customShader (exampleResources exampleShader))))
     \<subseteq> fst ` set (getAttributeNames exampleExternals (attributes examplePrimitive)) \<and>
   enabled (vertexLines (fst (generateShaderLines exampleExternals
     (model_customShader (exampleResources exampleShader)) examplePrimitive []))) \<and>
   attributeFields (vertexLines (fst (generateShaderLines exampleExternals
     (model_customShader (exampleResources exampleShader)) examplePrimitive []))) =
     Some [(Str ''vec3'', ''positionMC'')] \<and>
   initializationLines (vertexLines (fst (generateShaderLines exampleExternals
     (model_customShader (exampleResources exampleShader)) examplePrimitive []))) =
     Some [''vsInput.attributes.positionMC = attributes.positionMC;'']"
proof -
  let ?rr = "exampleResources exampleShader"
  let ?gen = "generateShaderLines exampleExternals (model_customShader ?rr) examplePrimitive []"
  have g: "?gen = (fst ?gen, snd ?gen)" by simp
  have t: "vertexShaderText (model_customShader ?rr) \<noteq> None"
    by (simp add: example_defs)
  have u: "set (attributeSet (usedVariablesVertex (model_customShader ?rr)))
     \<subseteq> fst ` set (getAttributeNames exampleExternals (attributes examplePrimitive))"
    by (simp add: example_defs model_defs)
  have f: "map (\<lambda>(n, a). (Str (getGlslType exampleExternals (type a)), n))
            (filter (\<lambda>(n, a). n \<in> set (attributeSet (usedVariablesVertex (model_customShader ?rr))))
               (getAttributeNames exampleExternals (attributes examplePrimitive))) =
           [(Str ''vec3'', ''positionMC'')]"
    by (simp add: example_defs model_defs)
  have l: "map (\<lambda>(n, a). ''vsInput.attributes.'' @ n @ '' = attributes.'' @ n @ '';'')
            (filter (\<lambda>(n, a). n \<in> set (attributeSet (usedVariablesVertex (model_customShader ?rr))))
               (getAttributeNames exampleExternals (attributes examplePrimitive))) =
           [''vsInput.attributes.positionMC = attributes.positionMC;'']"
    by (simp add: example_defs model_defs)
  from present_attributes_are_copied [OF g t u, of "()"] f l t u show ?thesis
    by auto
qed

theorem initialization_line_counterexample:
  "vertexShaderText exampleShader \<noteq> None \<and>
   set (attributeSet (usedVariablesVertex exampleShader))
     \<subseteq> fst ` set (getAttributeNames exampleExternals (attributes examplePrimitive)) \<and>
   initializationLines (vertexLines (fst (generateShaderLines exampleExternals exampleShader
                                            examplePrimitive []))) =
     Some [''vsInput.attributes.positionMC = attributes.positionMC;''] \<and>
   ''vsInput.attributes.positionMC = attributes.positionMC;'' \<noteq>
   ''input.attributes.positionMC = attributes.positionMC;''"
  by (simp add: example_defs model_defs)

text \<open>
  C7, at an input where the code departs from it. The comment in \<^verbatim>\<open>inferAttributeDefaults\<close>
  says that a custom attribute, whose type is unknown, gets no default. The function
  reads the two tables with \<^verbatim>\<open>table[trimmed]\<close> and tests only \<^verbatim>\<open>defined(glslType)\<close>, so a
  name that the tables inherit from \<^verbatim>\<open>Object.prototype\<close> does get one. The vertex stage
  below uses \<open>positionMC\<close> and \<open>constructor\<close>; the primitive has no attribute
  \<open>constructor\<close>, and \<open>constructor\<close> is not a key of the type table. Default inference
  returns for \<open>constructor\<close>, and for \<open>toString_1\<close>, a result whose type and value are the
  inherited member, while it returns nothing for \<open>temperature\<close>. The vertex lines end
  enabled, with a field whose type is the inherited member and an initialization line
  that assigns the text of that member; no warning is issued, and \<open>process\<close> passes this
  field and this line to the shader builder.
\<close>
theorem inherited_member_gets_default:
  "''constructor'' \<notin> fst ` set (getAttributeNames exampleExternals (attributes examplePrimitive)) \<and>
   ''constructor'' \<notin> fst ` set attributeTypeLUT \<and>
   ''constructor'' \<in> set objectPrototype \<and>
   inferAttributeDefaults ''constructor'' =
     Some \<lparr>attributeField = (Inherited ''constructor'', ''constructor''),
           value = Some (Inherited ''constructor'')\<rparr> \<and>
   inferAttributeDefaults ''toString_1'' =
     Some \<lparr>attributeField = (Inherited ''toString'', ''toString_1''),
           value = Some (Inherited ''toString'')\<rparr> \<and>
   inferAttributeDefaults ''temperature'' = None \<and>
   vertexLines (fst (generateShaderLines exampleExternals
     (exampleShader\<lparr>usedVariablesVertex := \<lparr>attributeSet = [''positionMC'', ''constructor'']\<rparr>\<rparr>)
     examplePrimitive [])) =
     \<lparr>enabled = True,
      attributeFields = Some [(Str ''vec3'', ''positionMC''),
                              (Inherited ''constructor'', ''constructor'')],
      fragmentInputFields = None,
      initializationLines = Some
        [''vsInput.attributes.positionMC = attributes.positionMC;'',
         ''vsInput.attributes.constructor = function Object() { [native code] };'']\<rparr> \<and>
   snd (generateShaderLines exampleExternals
     (exampleShader\<lparr>usedVariablesVertex := \<lparr>attributeSet = [''positionMC'', ''constructor'']\<rparr>\<rparr>)
     examplePrimitive []) = [] \<and>
   (case process exampleExternals
      (exampleResources
        (exampleShader\<lparr>usedVariablesVertex := \<lparr>attributeSet = [''positionMC'', ''constructor'']\<rparr>\<rparr>))
      examplePrimitive () [] of
      Inl e \<Rightarrow> False
    | Inr (renderResources', log') \<Rightarrow>
        log' = [] \<and>
        structFields ''AttributesVS'' (shaderBuilder renderResources') =
          [(Str ''vec3'', ''positionMC''), (Inherited ''constructor'', ''constructor'')] \<and>
        functionLines ''initializeInputStructVS'' (shaderBuilder renderResources') =
          [''vsInput.attributes.positionMC = attributes.positionMC;'',
           ''vsInput.attributes.constructor = function Object() { [native code] };''])"
  by (simp add: example_defs model_defs Let_def)

end
